theory Spec2Isabelle
  imports Complex_Main
begin

section \<open>Python values, exceptions and HTTP outcomes\<close>

text \<open>
  The development follows \<^verbatim>\<open>examples/05-volumes-memory/app.py\<close>. Every handler is a
  function of the operating-system readings it makes (a record of oracles, \<open>os_env\<close>) and,
  where it writes, of the file state (\<open>world\<close>). A Python exception is a value of
  \<open>py_exn\<close>; a handler returns \<open>failure + json\<close>, where the failure is either the
  \<^verbatim>\<open>HTTPException\<close> the code raises or an exception no handler of the code catches.
  Floats are modelled by exact reals: \<^verbatim>\<open>a / b\<close> is the exact quotient.
\<close>

datatype py_exn =
    OSError string
  | PermissionError string
  | FileNotFoundError string
  | MemoryError
  | ValueError string
  | OverflowError string
  | ZeroDivisionError string
  | OtherException string

text \<open>
  \<^verbatim>\<open>isinstance(e, OSError)\<close>: the class and its two subclasses that the code or the
  examples name; every other subclass (a file that exists, a path that is or is not a
  directory) is an \<open>OSError\<close> with its message.
\<close>

fun is_OSError :: "py_exn \<Rightarrow> bool" where
  "is_OSError (OSError m) = True"
| "is_OSError (PermissionError m) = True"
| "is_OSError (FileNotFoundError m) = True"
| "is_OSError e = False"

text \<open>\<^verbatim>\<open>str(e)\<close>.\<close>

fun str_exn :: "py_exn \<Rightarrow> string" where
  "str_exn (OSError m) = m"
| "str_exn (PermissionError m) = m"
| "str_exn (FileNotFoundError m) = m"
| "str_exn MemoryError = []"
| "str_exn (ValueError m) = m"
| "str_exn (OverflowError m) = m"
| "str_exn (ZeroDivisionError m) = m"
| "str_exn (OtherException m) = m"

datatype failure = HTTPException nat string | Unhandled py_exn

datatype json =
    JNull
  | JBool bool
  | JInt int
  | JFloat real
  | JStr string
  | JList "json list"
  | JObj "(string \<times> json) list"

text \<open>\<^verbatim>\<open>d.get(k)\<close> on a dict-shaped response.\<close>

fun field :: "string \<Rightarrow> json \<Rightarrow> json option" where
  "field k (JObj kvs) = map_of kvs k"
| "field k j = None"

text \<open>The status of the response; the framework answers an uncaught exception by 500.\<close>

fun http_status :: "failure + json \<Rightarrow> nat" where
  "http_status (Inl (HTTPException code detail)) = code"
| "http_status (Inl (Unhandled e)) = 500"
| "http_status (Inr j) = 200"

text \<open>A path as an error message shows it: between single quotes.\<close>

definition quoted :: "string \<Rightarrow> string" where
  "quoted p = CHR 0x27 # p @ [CHR 0x27]"

text \<open>Sequencing of calls that may raise: the first exception ends the block.\<close>

definition seq :: "'e + 'a \<Rightarrow> ('a \<Rightarrow> 'e + 'b) \<Rightarrow> 'e + 'b" where
  "seq m f = (case m of Inl e \<Rightarrow> Inl e | Inr x \<Rightarrow> f x)"


definition json_opt_str :: "string option \<Rightarrow> json" where
  "json_opt_str v = (case v of None \<Rightarrow> JNull | Some s \<Rightarrow> JStr s)"

subsection \<open>Strings and integers\<close>

text \<open>
  A character is a code point below 256. \<^verbatim>\<open>str.strip()\<close> removes the characters for
  which \<^verbatim>\<open>str.isspace\<close> holds. \<^verbatim>\<open>int(str)\<close> skips white space of its own at both ends
  (the separators 28 to 31 are not among it), then reads an optional sign and decimal
  digits with single underscores between digits, and refuses a text of more than 4300
  digits. Below 256 the only decimal digits are \<^verbatim>\<open>0\<close> to \<^verbatim>\<open>9\<close>.
\<close>

definition is_space :: "char \<Rightarrow> bool" where
  "is_space c =
     (let n = (of_char c :: nat)
      in (9 \<le> n \<and> n \<le> 13) \<or> (28 \<le> n \<and> n \<le> 32) \<or> n = 133 \<or> n = 160)"

definition int_space :: "char \<Rightarrow> bool" where
  "int_space c =
     (let n = (of_char c :: nat) in (9 \<le> n \<and> n \<le> 13) \<or> n = 32 \<or> n = 133 \<or> n = 160)"

definition strip_by :: "(char \<Rightarrow> bool) \<Rightarrow> string \<Rightarrow> string" where
  "strip_by P s = rev (dropWhile P (rev (dropWhile P s)))"

definition py_strip :: "string \<Rightarrow> string" where
  "py_strip s = strip_by is_space s"

definition is_digit :: "char \<Rightarrow> bool" where
  "is_digit c = (let n = (of_char c :: nat) in 48 \<le> n \<and> n \<le> 57)"

definition digit_val :: "char \<Rightarrow> nat" where
  "digit_val c = of_char c - 48"

fun dec_digits :: "string \<Rightarrow> nat \<Rightarrow> nat option" where
  "dec_digits [] acc = Some acc"
| "dec_digits (c # cs) acc =
     (if is_digit c then dec_digits cs (10 * acc + digit_val c)
      else if c = CHR ''_'' then
        (case cs of [] \<Rightarrow> None
         | d # ds \<Rightarrow> if is_digit d then dec_digits cs acc else None)
      else None)"

definition parse_dec :: "string \<Rightarrow> nat option" where
  "parse_dec s = (case s of [] \<Rightarrow> None
                  | c # cs \<Rightarrow> if is_digit c then dec_digits s 0 else None)"

text \<open>The limit of \<^verbatim>\<open>sys.get_int_max_str_digits()\<close>; underscores and the sign do not count.\<close>

definition int_max_str_digits :: nat where
  "int_max_str_digits = 4300"

definition digit_count :: "string \<Rightarrow> nat" where
  "digit_count s = length (filter is_digit s)"

text \<open>The digits after the sign. The messages, which no handler shows, are left short.\<close>

definition int_of_digits :: "string \<Rightarrow> py_exn + nat" where
  "int_of_digits body =
     (case parse_dec body of
        None \<Rightarrow> Inl (ValueError ''invalid literal for int() with base 10'')
      | Some n \<Rightarrow>
          if int_max_str_digits < digit_count body
          then Inl (ValueError ''Exceeds the limit (4300 digits) for integer string conversion'')
          else Inr n)"

definition py_int :: "string \<Rightarrow> py_exn + int" where
  "py_int s =
     (case strip_by int_space s of
        [] \<Rightarrow> Inl (ValueError ''invalid literal for int() with base 10'')
      | c # cs \<Rightarrow>
          if c = CHR ''-'' then
            (case int_of_digits cs of Inl e \<Rightarrow> Inl e | Inr n \<Rightarrow> Inr (- int n))
          else if c = CHR ''+'' then
            (case int_of_digits cs of Inl e \<Rightarrow> Inl e | Inr n \<Rightarrow> Inr (int n))
          else
            (case int_of_digits (c # cs) of Inl e \<Rightarrow> Inl e | Inr n \<Rightarrow> Inr (int n)))"

text \<open>
  The characters a decimal literal can hold, and a class of texts \<^verbatim>\<open>int\<close> refuses:
  nothing but white space, or a character that no literal holds.
\<close>

definition number_char :: "char \<Rightarrow> bool" where
  "number_char c = (is_digit c \<or> c = CHR ''_'' \<or> c = CHR ''+'' \<or> c = CHR ''-'')"

definition not_a_number :: "string \<Rightarrow> bool" where
  "not_a_number s = (py_strip s = [] \<or> \<not> list_all number_char (py_strip s))"

text \<open>\<^verbatim>\<open>str(n)\<close> of an integer, as an f-string prints it and as the kernel writes a counter.\<close>

definition digit_char :: "nat \<Rightarrow> char" where
  "digit_char d = char_of (48 + d)"

fun str_nat :: "nat \<Rightarrow> string" where
  "str_nat n = (if n < 10 then [digit_char n] else str_nat (n div 10) @ [digit_char (n mod 10)])"

declare str_nat.simps [simp del]

definition py_str :: "int \<Rightarrow> string" where
  "py_str i = (if i < 0 then CHR ''-'' # str_nat (nat (- i)) else str_nat (nat i))"

text \<open>An integer whose decimal text \<^verbatim>\<open>int\<close> still reads: at most 4300 digits.\<close>

definition within_digit_limit :: "int \<Rightarrow> bool" where
  "within_digit_limit i = (digit_count (py_str i) \<le> int_max_str_digits)"

text \<open>
  A count given to \<^verbatim>\<open>bytearray\<close> or to a repetition must fit the index type of the
  interpreter (64 bits, signed); the test comes before any other.
\<close>

definition as_index :: "int \<Rightarrow> py_exn + int" where
  "as_index n =
     (if n < - 9223372036854775808 \<or> 9223372036854775807 < n
      then Inl (OverflowError ''cannot fit 'int' into an index-sized integer'')
      else Inr n)"

text \<open>True division of two integers.\<close>

definition py_truediv :: "int \<Rightarrow> int \<Rightarrow> py_exn + real" where
  "py_truediv a b =
     (if b = 0 then Inl (ZeroDivisionError ''division by zero'')
      else Inr (real_of_int a / real_of_int b))"

text \<open>\<^verbatim>\<open>os.path.join(a, b)\<close> and \<^verbatim>\<open>os.path.dirname(p)\<close> of posixpath.\<close>

definition os_path_join :: "string \<Rightarrow> string \<Rightarrow> string" where
  "os_path_join a b =
     (if b \<noteq> [] \<and> hd b = CHR ''/'' then b
      else if a = [] \<or> last a = CHR ''/'' then a @ b
      else a @ ''/'' @ b)"

definition os_path_dirname :: "string \<Rightarrow> string" where
  "os_path_dirname p =
     (let head = rev (dropWhile (\<lambda>c. c \<noteq> CHR ''/'') (rev p))
      in if head \<noteq> [] \<and> \<not> list_all (\<lambda>c. c = CHR ''/'') head
         then rev (dropWhile (\<lambda>c. c = CHR ''/'') (rev head))
         else head)"

section \<open>The operating system as the handlers see it\<close>

text \<open>
  A text file opened for reading: absent, refusing the open or the read (a text that
  cannot be decoded is such a refusal), or the text that \<^verbatim>\<open>f.read()\<close> returns.
\<close>

datatype file_state = Missing | Unreadable py_exn | Contents string

fun open_read :: "string \<Rightarrow> file_state \<Rightarrow> py_exn + string" where
  "open_read p Missing =
     Inl (FileNotFoundError (''[Errno 2] No such file or directory: '' @ quoted p))"
| "open_read p (Unreadable e) = Inl e"
| "open_read p (Contents s) = Inr s"

record svmem =
  vm_total :: int
  vm_available :: int
  vm_used :: int
  vm_free :: int
  vm_percent :: real
  vm_cached :: "int option"
  vm_buffers :: "int option"

record sswap =
  sw_total :: int
  sw_used :: int
  sw_free :: int
  sw_percent :: real

record sdiskusage =
  du_total :: int
  du_used :: int
  du_free :: int

record sdiskpart =
  device :: string
  mountpoint :: string
  fstype :: string

text \<open>
  What \<^verbatim>\<open>os.walk(path)\<close> hands to a \<^verbatim>\<open>for\<close> loop: the triples
  \<open>(dirpath, dirnames, filenames)\<close> it yields and, when the iteration ends by an
  exception, that exception. A directory that cannot be listed yields nothing.
\<close>

type_synonym walk_entry = "string \<times> string list \<times> string list"

datatype walk = Walk "walk_entry list" "py_exn option"

record os_env =
  cgroup_file :: "string \<Rightarrow> file_state"
  virtual_memory :: svmem
  swap_memory :: sswap
  root_usage :: sdiskusage
  disk_partitions :: "sdiskpart list"
  disk_usage :: "string \<Rightarrow> py_exn + sdiskusage"
  stat_raises :: "string \<Rightarrow> py_exn option"
  ismount :: "string \<Rightarrow> py_exn + bool"
  os_walk :: "string \<Rightarrow> walk"
  getsize :: "string \<Rightarrow> py_exn + int"
  getenv :: "string \<Rightarrow> string option"
  makedirs_raises :: "string \<Rightarrow> py_exn option"
  open_raises :: "string \<Rightarrow> py_exn option"
  write_raises :: "string \<Rightarrow> nat \<Rightarrow> (py_exn \<times> nat) option"
  remove_raises :: "string \<Rightarrow> py_exn option"
  alloc_raises :: "nat \<Rightarrow> bool"
  now :: string

text \<open>The mutable file state: what stands at each path, a regular file with its bytes or a directory.\<close>

datatype fs_node = RegularFile string | Directory

type_synonym world = "string \<rightharpoonup> fs_node"

definition os_path_exists :: "world \<Rightarrow> string \<Rightarrow> bool" where
  "os_path_exists w p = (w p \<noteq> None)"

section \<open>LimitResolver: \<^verbatim>\<open>get_memory_limit\<close> and \<^verbatim>\<open>get_cgroup_memory\<close>\<close>

text \<open>
  \<^verbatim>\<open>try: with open(path, 'r') as f: return int(f.read().strip())\<close>
  \<^verbatim>\<open>except: return None\<close>
  The two functions have this one body and differ in the path they open.
\<close>

definition read_counter :: "os_env \<Rightarrow> string \<Rightarrow> py_exn + int option" where
  "read_counter env path =
     (case seq (open_read path (cgroup_file env path)) (\<lambda>s. py_int (py_strip s)) of
        Inl e \<Rightarrow> Inr None
      | Inr n \<Rightarrow> Inr (Some n))"

definition get_memory_limit :: "os_env \<Rightarrow> py_exn + int option" where
  "get_memory_limit env = read_counter env ''/sys/fs/cgroup/memory/memory.limit_in_bytes''"

definition get_cgroup_memory :: "os_env \<Rightarrow> py_exn + int option" where
  "get_cgroup_memory env = read_counter env ''/sys/fs/cgroup/memory/memory.usage_in_bytes''"

section \<open>Directory walks: \<^verbatim>\<open>get_directory_size\<close> and \<^verbatim>\<open>count_files\<close>\<close>

text \<open>
  The inner loop of \<^verbatim>\<open>get_directory_size\<close>: \<^verbatim>\<open>except OSError: pass\<close> skips a file
  whose size cannot be read; any other exception leaves the loop.
\<close>

fun sum_files :: "(string \<Rightarrow> py_exn + int) \<Rightarrow> string \<Rightarrow> string list \<Rightarrow> int \<Rightarrow> py_exn + int" where
  "sum_files gs dirpath [] total_size = Inr total_size"
| "sum_files gs dirpath (filename # rest) total_size =
     (case gs (os_path_join dirpath filename) of
        Inr n \<Rightarrow> sum_files gs dirpath rest (total_size + n)
      | Inl e \<Rightarrow> if is_OSError e then sum_files gs dirpath rest total_size else Inl e)"

fun walk_sizes :: "(string \<Rightarrow> py_exn + int) \<Rightarrow> walk_entry list \<Rightarrow> int \<Rightarrow> py_exn + int" where
  "walk_sizes gs [] total_size = Inr total_size"
| "walk_sizes gs ((dirpath, dirnames, filenames) # rest) total_size =
     seq (sum_files gs dirpath filenames total_size) (walk_sizes gs rest)"

text \<open>The outer \<^verbatim>\<open>try\<close>: a bare \<^verbatim>\<open>except\<close> turns every exception into the result 0.\<close>

definition get_directory_size :: "os_env \<Rightarrow> string \<Rightarrow> py_exn + int" where
  "get_directory_size env path =
     (case (case os_walk env path of
              Walk entries raised \<Rightarrow>
                seq (walk_sizes (getsize env) entries 0)
                  (\<lambda>total_size. case raised of Some e \<Rightarrow> Inl e | None \<Rightarrow> Inr total_size)) of
        Inl e \<Rightarrow> Inr 0
      | Inr total_size \<Rightarrow> Inr total_size)"

fun walk_count :: "walk_entry list \<Rightarrow> int \<Rightarrow> int" where
  "walk_count [] count = count"
| "walk_count ((dirpath, ds, fs) # rest) count = walk_count rest (count + int (length fs))"

definition count_files :: "os_env \<Rightarrow> string \<Rightarrow> py_exn + int" where
  "count_files env path =
     (case (case os_walk env path of
              Walk entries raised \<Rightarrow>
                (case raised of Some e \<Rightarrow> Inl e | None \<Rightarrow> Inr (walk_count entries 0))) of
        Inl e \<Rightarrow> Inr 0
      | Inr count \<Rightarrow> Inr count)"

text \<open>The sum the walk is meant to compute: the sizes of the files that can be read.\<close>

definition readable_size :: "(string \<Rightarrow> py_exn + int) \<Rightarrow> string \<Rightarrow> int" where
  "readable_size gs p = (case gs p of Inr n \<Rightarrow> n | Inl e \<Rightarrow> 0)"

definition readable_total :: "(string \<Rightarrow> py_exn + int) \<Rightarrow> walk_entry list \<Rightarrow> int" where
  "readable_total gs entries =
     sum_list (map (\<lambda>(dirpath, dirnames, filenames).
        sum_list (map (\<lambda>filename. readable_size gs (os_path_join dirpath filename)) filenames))
        entries)"

definition listed_files :: "walk_entry list \<Rightarrow> int" where
  "listed_files entries = sum_list (map (\<lambda>(dirpath, ds, fs). int (length fs)) entries)"

definition only_OSError :: "(string \<Rightarrow> py_exn + int) \<Rightarrow> walk_entry list \<Rightarrow> bool" where
  "only_OSError gs entries =
     list_all (\<lambda>(dirpath, dirnames, filenames).
        list_all (\<lambda>filename.
          case gs (os_path_join dirpath filename) of Inl e \<Rightarrow> is_OSError e | Inr n \<Rightarrow> True)
          filenames)
        entries"

section \<open>MetricsCollector: \<^verbatim>\<open>get_memory_info\<close> and \<^verbatim>\<open>get_disk_info\<close>\<close>


text \<open>The body of the \<^verbatim>\<open>try\<close> in the partition loop: the dict that is appended.\<close>

definition partition_entry :: "os_env \<Rightarrow> sdiskpart \<Rightarrow> py_exn + json" where
  "partition_entry env part =
     seq (disk_usage env (mountpoint part)) (\<lambda>partition_usage.
     seq (py_truediv (du_used partition_usage) (du_total partition_usage)) (\<lambda>q.
       Inr (JObj
         [(''device'', JStr (device part)),
          (''mountpoint'', JStr (mountpoint part)),
          (''fstype'', JStr (fstype part)),
          (''total'', JInt (du_total partition_usage)),
          (''used'', JInt (du_used partition_usage)),
          (''free'', JInt (du_free partition_usage)),
          (''percent'', JFloat (q * 100))])))"

text \<open>The loop: \<^verbatim>\<open>except PermissionError: continue\<close>; any other exception leaves it.\<close>

fun collect_partitions :: "os_env \<Rightarrow> sdiskpart list \<Rightarrow> json list \<Rightarrow> py_exn + json list" where
  "collect_partitions env [] partitions = Inr partitions"
| "collect_partitions env (part # rest) partitions =
     (case partition_entry env part of
        Inr d \<Rightarrow> collect_partitions env rest (partitions @ [d])
      | Inl (PermissionError m) \<Rightarrow> collect_partitions env rest partitions
      | Inl e \<Rightarrow> Inl e)"

definition get_disk_info :: "os_env \<Rightarrow> failure + json" where
  "get_disk_info env =
     (let usage = root_usage env in
      case seq (collect_partitions env (disk_partitions env) []) (\<lambda>partitions.
           seq (py_truediv (du_used usage) (du_total usage)) (\<lambda>q. Inr (partitions, q))) of
        Inl e \<Rightarrow> Inl (Unhandled e)
      | Inr (partitions, q) \<Rightarrow>
          Inr (JObj
            [(''root_disk'', JObj
               [(''total'', JInt (du_total usage)),
                (''used'', JInt (du_used usage)),
                (''free'', JInt (du_free usage)),
                (''percent'', JFloat (q * 100))]),
             (''partitions'', JList partitions)]))"



definition partitions_of :: "json \<Rightarrow> json list" where
  "partitions_of j = (case field ''partitions'' j of Some (JList ps) \<Rightarrow> ps | _ \<Rightarrow> [])"




section \<open>VolumeInspector: \<^verbatim>\<open>get_volume_info\<close>\<close>

definition volume_paths :: "string list" where
  "volume_paths = [''/app/data'', ''/app/logs'', ''/app/backups'', ''/tmp'', ''/var/log'']"

text \<open>The body of the \<^verbatim>\<open>try\<close>: the calls in the order the dict literal makes them.\<close>

definition inspect_volume :: "os_env \<Rightarrow> string \<Rightarrow> py_exn + json" where
  "inspect_volume env path =
     seq (case stat_raises env path of Some e \<Rightarrow> Inl e | None \<Rightarrow> Inr ()) (\<lambda>stat.
     seq (ismount env path) (\<lambda>is_mount.
     seq (get_directory_size env path) (\<lambda>size.
     seq (count_files env path) (\<lambda>n.
       Inr (JObj
         [(''path'', JStr path),
          (''exists'', JBool True),
          (''is_mount'', JBool is_mount),
          (''size'', JInt size),
          (''files'', JInt n)])))))"

text \<open>One turn of the loop; \<^verbatim>\<open>except Exception as e\<close> catches every exception.\<close>

definition volume_record :: "os_env \<Rightarrow> world \<Rightarrow> string \<Rightarrow> json" where
  "volume_record env w path =
     (if os_path_exists w path then
        (case inspect_volume env path of
           Inr d \<Rightarrow> d
         | Inl e \<Rightarrow>
             JObj [(''path'', JStr path), (''exists'', JBool True), (''error'', JStr (str_exn e))])
      else JObj [(''path'', JStr path), (''exists'', JBool False)])"

definition get_volume_info :: "os_env \<Rightarrow> world \<Rightarrow> failure + json" where
  "get_volume_info env w =
     Inr (JObj
       [(''volumes'', JList (map (volume_record env w) volume_paths)),
        (''environment_variables'', JObj
          [(''ENVIRONMENT'', json_opt_str (getenv env ''ENVIRONMENT'')),
           (''MEMORY_LIMIT'', json_opt_str (getenv env ''MEMORY_LIMIT'')),
           (''CPU_LIMIT'', json_opt_str (getenv env ''CPU_LIMIT''))])])"

definition volumes_of :: "failure + json \<Rightarrow> json list" where
  "volumes_of r =
     (case r of
        Inr j \<Rightarrow> (case field ''volumes'' j of Some (JList vs) \<Rightarrow> vs | _ \<Rightarrow> [])
      | Inl e \<Rightarrow> [])"

section \<open>LoadGenerator\<close>

subsection \<open>\<^verbatim>\<open>allocate_memory\<close>\<close>

text \<open>
  \<^verbatim>\<open>bytearray(n)\<close>: a count that does not fit the index type is an \<^verbatim>\<open>OverflowError\<close>,
  a negative count that fits is a \<^verbatim>\<open>ValueError\<close>; the allocation may fail.
\<close>

definition bytearray :: "os_env \<Rightarrow> int \<Rightarrow> py_exn + nat list" where
  "bytearray env n =
     seq (as_index n) (\<lambda>k.
       if k < 0 then Inl (ValueError ''negative count'')
       else if alloc_raises env (nat k) then Inl MemoryError
       else Inr (replicate (nat k) 0))"

text \<open>\<^verbatim>\<open>for i in range(0, len(memory_data), 1024): memory_data[i] = 1\<close>\<close>

definition touch_pages :: "nat list \<Rightarrow> nat list" where
  "touch_pages memory_data =
     fold (\<lambda>i d. d[i := 1])
       (map (\<lambda>k. 1024 * k) [0..<(length memory_data + 1023) div 1024]) memory_data"

definition allocate_body :: "os_env \<Rightarrow> int \<Rightarrow> py_exn + json \<times> nat list" where
  "allocate_body env size_mb =
     seq (bytearray env (size_mb * 1024 * 1024)) (\<lambda>memory_data.
       Inr (JObj
          [(''message'', JStr (''Allocated '' @ py_str size_mb @ ''MB of memory'')),
           (''timestamp'', JStr (now env)),
           (''memory_used'', JInt (vm_used (virtual_memory env))),
           (''memory_percent'', JFloat (vm_percent (virtual_memory env)))],
         touch_pages memory_data))"

text \<open>
  The second component is the buffer the call allocated (\<open>None\<close> when it allocated none);
  it is dropped when the handler returns.
\<close>

definition allocate_memory :: "os_env \<Rightarrow> int \<Rightarrow> (failure + json) \<times> nat list option" where
  "allocate_memory env size_mb =
     (if size_mb > 1000 then (Inl (HTTPException 400 ''Size too large (max 1000MB)''), None)
      else
        (case allocate_body env size_mb of
           Inr (response, memory_data) \<Rightarrow> (Inr response, Some memory_data)
         | Inl MemoryError \<Rightarrow> (Inl (HTTPException 507 ''Insufficient memory''), None)
         | Inl e \<Rightarrow> (Inl (Unhandled e), None)))"

subsection \<open>\<^verbatim>\<open>fill_disk\<close>\<close>

definition test_file :: string where
  "test_file = ''/app/data/test_file.bin''"

text \<open>
  \<^verbatim>\<open>os.makedirs(p, exist_ok=True)\<close> goes through \<open>p\<close> and its ancestors from the top:
  a directory in place is passed, a missing one is made. A regular file in the way ends
  the call: \<^verbatim>\<open>FileExistsError\<close> when it stands at \<open>p\<close> itself, \<^verbatim>\<open>NotADirectoryError\<close>
  for the path below it otherwise.
\<close>

definition path_prefixes :: "string \<Rightarrow> string list" where
  "path_prefixes p = map (\<lambda>i. take i p) (filter (\<lambda>i. p ! i = CHR ''/'') [1..<length p]) @ [p]"

fun make_each :: "world \<Rightarrow> string list \<Rightarrow> (py_exn + unit) \<times> world" where
  "make_each w [] = (Inr (), w)"
| "make_each w (q # qs) =
     (case w q of
        None \<Rightarrow> make_each (w(q \<mapsto> Directory)) qs
      | Some Directory \<Rightarrow> make_each w qs
      | Some (RegularFile bytes) \<Rightarrow>
          (case qs of
             [] \<Rightarrow> (Inl (OSError (''[Errno 17] File exists: '' @ quoted q)), w)
           | q' # rest \<Rightarrow> (Inl (OSError (''[Errno 20] Not a directory: '' @ quoted q')), w)))"

definition os_makedirs :: "os_env \<Rightarrow> world \<Rightarrow> string \<Rightarrow> (py_exn + unit) \<times> world" where
  "os_makedirs env w p =
     (case makedirs_raises env p of
        Some e \<Rightarrow> (Inl e, w)
      | None \<Rightarrow> make_each w (path_prefixes p))"

text \<open>\<^verbatim>\<open>open(p, 'wb')\<close> creates the file or truncates it.\<close>

definition open_wb :: "os_env \<Rightarrow> world \<Rightarrow> string \<Rightarrow> (py_exn + unit) \<times> world" where
  "open_wb env w p =
     (case open_raises env p of
        Some e \<Rightarrow> (Inl e, w)
      | None \<Rightarrow>
          (case w p of
             Some Directory \<Rightarrow> (Inl (OSError (''[Errno 21] Is a directory: '' @ quoted p)), w)
           | _ \<Rightarrow> (Inr (), w(p \<mapsto> RegularFile []))))"

text \<open>
  \<^verbatim>\<open>b'0' * n\<close>: a count that does not fit the index type is an \<^verbatim>\<open>OverflowError\<close>;
  the bytes are empty for a count that fits and is not positive.
\<close>

definition bytes_repeat :: "os_env \<Rightarrow> char \<Rightarrow> int \<Rightarrow> py_exn + string" where
  "bytes_repeat env c n =
     seq (as_index n) (\<lambda>k.
       if k \<le> 0 then Inr []
       else if alloc_raises env (nat k) then Inl MemoryError
       else Inr (replicate (nat k) c))"

text \<open>A write that fails has put some prefix of the bytes into the file.\<close>

definition file_write :: "os_env \<Rightarrow> world \<Rightarrow> string \<Rightarrow> string \<Rightarrow> (py_exn + unit) \<times> world" where
  "file_write env w p bytes =
     (case write_raises env p (length bytes) of
        Some (e, k) \<Rightarrow> (Inl e, w(p \<mapsto> RegularFile (take k bytes)))
      | None \<Rightarrow> (Inr (), w(p \<mapsto> RegularFile bytes)))"

definition fill_body :: "os_env \<Rightarrow> world \<Rightarrow> int \<Rightarrow> (py_exn + json) \<times> world" where
  "fill_body env w size_mb =
     (case os_makedirs env w (os_path_dirname test_file) of
        (Inl e, w1) \<Rightarrow> (Inl e, w1)
      | (Inr u1, w1) \<Rightarrow>
     (case open_wb env w1 test_file of
        (Inl e, w2) \<Rightarrow> (Inl e, w2)
      | (Inr u2, w2) \<Rightarrow>
     (case bytes_repeat env CHR ''0'' (size_mb * 1024 * 1024) of
        Inl e \<Rightarrow> (Inl e, w2)
      | Inr bytes \<Rightarrow>
     (case file_write env w2 test_file bytes of
        (Inl e, w3) \<Rightarrow> (Inl e, w3)
      | (Inr u3, w3) \<Rightarrow>
     (case get_directory_size env ''/app/data'' of
        Inl e \<Rightarrow> (Inl e, w3)
      | Inr usage \<Rightarrow>
          (Inr (JObj
             [(''message'', JStr (''Created '' @ py_str size_mb @ ''MB test file'')),
              (''file_path'', JStr test_file),
              (''timestamp'', JStr (now env)),
              (''disk_usage'', JInt usage)]), w3))))))"

text \<open>\<^verbatim>\<open>except OSError as e: raise HTTPException(status_code=507, detail=f"Disk full: {str(e)}")\<close>\<close>

definition fill_disk :: "os_env \<Rightarrow> world \<Rightarrow> int \<Rightarrow> (failure + json) \<times> world" where
  "fill_disk env w size_mb =
     (if size_mb > 100 then (Inl (HTTPException 400 ''Size too large (max 100MB)''), w)
      else
        (case fill_body env w size_mb of
           (Inr response, w') \<Rightarrow> (Inr response, w')
         | (Inl e, w') \<Rightarrow>
             (if is_OSError e then Inl (HTTPException 507 (''Disk full: '' @ str_exn e))
              else Inl (Unhandled e), w')))"

subsection \<open>\<^verbatim>\<open>cleanup_disk\<close>\<close>

definition os_remove :: "os_env \<Rightarrow> world \<Rightarrow> string \<Rightarrow> (py_exn + unit) \<times> world" where
  "os_remove env w p =
     (case remove_raises env p of
        Some e \<Rightarrow> (Inl e, w)
      | None \<Rightarrow>
          (case w p of
             Some (RegularFile bytes) \<Rightarrow> (Inr (), w(p := None))
           | Some Directory \<Rightarrow> (Inl (OSError (''[Errno 21] Is a directory: '' @ quoted p)), w)
           | None \<Rightarrow>
               (Inl (FileNotFoundError (''[Errno 2] No such file or directory: '' @ quoted p)), w)))"

definition cleanup_disk :: "os_env \<Rightarrow> world \<Rightarrow> (failure + json) \<times> world" where
  "cleanup_disk env w =
     (if os_path_exists w test_file then
        (case os_remove env w test_file of
           (Inl e, w') \<Rightarrow> (Inl (HTTPException 500 (str_exn e)), w')
         | (Inr u, w') \<Rightarrow>
             (Inr (JObj [(''message'', JStr ''Test file removed''),
                         (''timestamp'', JStr (now env))]), w'))
      else
        (Inr (JObj [(''message'', JStr ''No test file found''),
                    (''timestamp'', JStr (now env))]), w))"

subsection \<open>\<^verbatim>\<open>stress_test\<close>\<close>

text \<open>The readings the handler takes, in the order it takes them.\<close>

record stress_readings =
  clock_1 :: real
  cpu_percent_1 :: real
  vm_percent_1 :: real
  clock_2 :: real
  cpu_percent_2 :: real
  vm_percent_2 :: real
  timestamp :: string

text \<open>The local variables when the handler returns; \<open>underscore\<close> is the variable \<^verbatim>\<open>_\<close>.\<close>

record stress_locals =
  start_time :: real
  cpu_start :: real
  underscore :: "int option"
  memory_start :: real
  data :: "int list list"
  end_time :: real

definition stress_test :: "stress_readings \<Rightarrow> (failure + json) \<times> stress_locals" where
  "stress_test r =
     (let start_time = clock_1 r;
          cpu_start = cpu_percent_1 r;
          underscore = fold (\<lambda>i u. Some (int i * int i)) [0..<1000000] None;
          memory_start = vm_percent_1 r;
          data = fold (\<lambda>i d. d @ [replicate 100 (int i)]) [0..<10000] [];
          end_time = clock_2 r
      in (Inr (JObj
            [(''message'', JStr ''Stress test completed''),
             (''duration'', JFloat (end_time - start_time)),
             (''cpu_usage'', JFloat (cpu_percent_2 r)),
             (''memory_usage'', JFloat (vm_percent_2 r)),
             (''timestamp'', JStr (timestamp r))]),
          \<lparr>start_time = start_time, cpu_start = cpu_start, underscore = underscore,
           memory_start = memory_start, data = data, end_time = end_time\<rparr>))"

section \<open>Example environments\<close>

text \<open>
  A host outside any container: no cgroup files, one partition, nothing under the volume
  paths, and an operating system that refuses nothing.
\<close>

definition host0 :: os_env where
  "host0 =
     \<lparr>cgroup_file = (\<lambda>p. Missing),
      virtual_memory =
        \<lparr>vm_total = 8000, vm_available = 5000, vm_used = 3000, vm_free = 4000,
         vm_percent = 37.5, vm_cached = Some 1000, vm_buffers = None\<rparr>,
      swap_memory = \<lparr>sw_total = 2000, sw_used = 0, sw_free = 2000, sw_percent = 0\<rparr>,
      root_usage = \<lparr>du_total = 1000, du_used = 400, du_free = 600\<rparr>,
      disk_partitions = [\<lparr>device = ''/dev/sda1'', mountpoint = ''/'', fstype = ''ext4''\<rparr>],
      disk_usage = (\<lambda>p. Inr \<lparr>du_total = 1000, du_used = 400, du_free = 600\<rparr>),
      stat_raises = (\<lambda>p. None),
      ismount = (\<lambda>p. Inr False),
      os_walk = (\<lambda>p. Walk [] None),
      getsize = (\<lambda>p.
        Inl (FileNotFoundError (''[Errno 2] No such file or directory: '' @ quoted p))),
      getenv = (\<lambda>k. None),
      makedirs_raises = (\<lambda>p. None),
      open_raises = (\<lambda>p. None),
      write_raises = (\<lambda>p n. None),
      remove_raises = (\<lambda>p. None),
      alloc_raises = (\<lambda>n. False),
      now = ''2024-01-01T00:00:00''\<rparr>"

text \<open>A container whose limit file reads \<^verbatim>\<open>max\<close> and whose usage file reads 512.\<close>

definition container1 :: os_env where
  "container1 =
     host0\<lparr>cgroup_file := (\<lambda>p.
       if p = ''/sys/fs/cgroup/memory/memory.limit_in_bytes'' then Contents ''max\<newline>''
       else if p = ''/sys/fs/cgroup/memory/memory.usage_in_bytes'' then Contents ''512\<newline>''
       else Missing)\<rparr>"

text \<open>
  A container whose usage file reads 512 after a no-break space (the code point 160), which
  \<^verbatim>\<open>strip\<close> removes as it removes the newline.
\<close>

definition container_nbsp :: os_env where
  "container_nbsp =
     host0\<lparr>cgroup_file := (\<lambda>p.
       if p = ''/sys/fs/cgroup/memory/memory.usage_in_bytes''
       then Contents (CHR 0xA0 # ''512\<newline>'')
       else Missing)\<rparr>"

text \<open>
  A host whose \<^verbatim>\<open>/app/data\<close> holds two readable files, one in a subdirectory, and a
  file that vanished after it was listed.
\<close>

definition host_tree :: os_env where
  "host_tree =
     host0\<lparr>os_walk := (\<lambda>p.
       if p = ''/app/data'' then
         Walk [(''/app/data'', [''sub''], [''a.txt'', ''gone.txt'']),
               (''/app/data/sub'', [], [''b.bin''])] None
       else Walk [] None),
     getsize := (\<lambda>p.
       if p = ''/app/data/a.txt'' then Inr 10
       else if p = ''/app/data/sub/b.bin'' then Inr 32
       else Inl (FileNotFoundError (''[Errno 2] No such file or directory: '' @ quoted p)))\<rparr>"

text \<open>A host on which \<^verbatim>\<open>/tmp\<close> vanishes between the existence test and \<^verbatim>\<open>os.stat\<close>.\<close>

definition host_race :: os_env where
  "host_race =
     host0\<lparr>stat_raises := (\<lambda>p.
       if p = ''/tmp''
       then Some (FileNotFoundError (''[Errno 2] No such file or directory: '' @ quoted p))
       else None)\<rparr>"

definition world0 :: world where
  "world0 = [''/tmp'' \<mapsto> Directory, ''/var/log'' \<mapsto> Directory]"

text \<open>The file state with \<^verbatim>\<open>/app/data\<close> in place, as a mounted volume leaves it.\<close>

definition world_mounted :: world where
  "world_mounted =
     [''/tmp'' \<mapsto> Directory, ''/var/log'' \<mapsto> Directory, ''/app'' \<mapsto> Directory,
      ''/app/data'' \<mapsto> Directory]"

text \<open>The file state after a fill of four bytes.\<close>

definition world_filled :: world where
  "world_filled =
     [''/tmp'' \<mapsto> Directory, ''/var/log'' \<mapsto> Directory, ''/app'' \<mapsto> Directory,
      ''/app/data'' \<mapsto> Directory, ''/app/data/test_file.bin'' \<mapsto> RegularFile ''0000'']"

text \<open>A host whose \<^verbatim>\<open>/app/data\<close> is mounted read-only, and a host whose disk is full.\<close>

definition host_readonly :: os_env where
  "host_readonly =
     host0\<lparr>open_raises := (\<lambda>p.
             Some (OSError (''[Errno 30] Read-only file system: '' @ quoted p))),
           remove_raises := (\<lambda>p.
             Some (OSError (''[Errno 30] Read-only file system: '' @ quoted p)))\<rparr>"

definition host_full :: os_env where
  "host_full =
     host0\<lparr>write_raises := (\<lambda>p n.
       if 0 < n then Some (OSError ''[Errno 28] No space left on device'', 0) else None)\<rparr>"

text \<open>A host that cannot allocate more than 100 bytes at once.\<close>

definition host_tight :: os_env where
  "host_tight = host0\<lparr>alloc_raises := (\<lambda>n. 100 < n)\<rparr>"

text \<open>A host with a second partition whose file system reports no capacity.\<close>

definition host_fuse :: os_env where
  "host_fuse =
     host0\<lparr>disk_partitions :=
             [\<lparr>device = ''/dev/sda1'', mountpoint = ''/'', fstype = ''ext4''\<rparr>,
              \<lparr>device = ''/dev/fuse'', mountpoint = ''/mnt/remote'', fstype = ''fuseblk''\<rparr>],
           disk_usage := (\<lambda>p.
             if p = ''/mnt/remote'' then Inr \<lparr>du_total = 0, du_used = 0, du_free = 0\<rparr>
             else Inr \<lparr>du_total = 1000, du_used = 400, du_free = 600\<rparr>)\<rparr>"


text \<open>A host with a partition that may not be queried, between two that may.\<close>

definition host_denied :: os_env where
  "host_denied =
     host0\<lparr>disk_partitions :=
             [\<lparr>device = ''/dev/sda1'', mountpoint = ''/'', fstype = ''ext4''\<rparr>,
              \<lparr>device = ''/dev/sdb1'', mountpoint = ''/root/secret'', fstype = ''ext4''\<rparr>,
              \<lparr>device = ''/dev/sdc1'', mountpoint = ''/app/data'', fstype = ''ext4''\<rparr>],
           disk_usage := (\<lambda>p.
             if p = ''/root/secret''
             then Inl (PermissionError (''[Errno 13] Permission denied: '' @ quoted p))
             else if p = ''/app/data'' then Inr \<lparr>du_total = 500, du_used = 500, du_free = 0\<rparr>
             else Inr \<lparr>du_total = 1000, du_used = 400, du_free = 600\<rparr>)\<rparr>"

text \<open>Two runs of the stress test that differ only in the readings taken before the load.\<close>

definition readings_a :: stress_readings where
  "readings_a =
     \<lparr>clock_1 = 100, cpu_percent_1 = 5, vm_percent_1 = 40, clock_2 = 100.5,
      cpu_percent_2 = 97, vm_percent_2 = 41, timestamp = ''2024-01-01T00:00:01''\<rparr>"

definition readings_b :: stress_readings where
  "readings_b = readings_a\<lparr>cpu_percent_1 := 60, vm_percent_1 := 80\<rparr>"

section \<open>Properties of the helpers\<close>

subsection \<open>Decimal text\<close>

lemma of_char_digit_char: "d < 10 \<Longrightarrow> (of_char (digit_char d) :: nat) = 48 + d"
  by (simp add: digit_char_def)

lemma digit_char_props:
  assumes "d < 10"
  shows "is_digit (digit_char d)" and "digit_val (digit_char d) = d"
    and "\<not> is_space (digit_char d)"
  using assms by (simp_all add: is_digit_def digit_val_def is_space_def of_char_digit_char)

lemma int_space_is_space: "int_space c \<Longrightarrow> is_space c"
  by (auto simp: int_space_def is_space_def Let_def)

lemma is_digit_not_sign: "is_digit c \<Longrightarrow> c \<noteq> CHR ''-'' \<and> c \<noteq> CHR ''+''"
  by (auto simp: is_digit_def)

lemma str_nat_digits: "c \<in> set (str_nat n) \<Longrightarrow> is_digit c \<and> \<not> is_space c"
proof (induction n rule: str_nat.induct)
  case (1 n)
  show ?case
  proof (cases "n < 10")
    case True
    with "1.prems" show ?thesis
      by (simp add: str_nat.simps [of n] digit_char_props)
  next
    case False
    with "1.prems" "1.IH" show ?thesis
      by (auto simp: str_nat.simps [of n] digit_char_props)
  qed
qed

lemma str_nat_nonempty: "str_nat n \<noteq> []"
  by (simp add: str_nat.simps [of n])

lemma digit_count_str_nat: "digit_count (str_nat n) = length (str_nat n)"
  unfolding digit_count_def using str_nat_digits [of _ n] by (simp add: filter_id_conv)

lemma dec_digits_all_digits:
  "(\<And>c. c \<in> set xs \<Longrightarrow> is_digit c) \<Longrightarrow>
   dec_digits (xs @ ys) acc = dec_digits ys (foldl (\<lambda>a c. 10 * a + digit_val c) acc xs)"
  by (induction xs arbitrary: acc) auto

lemma foldl_str_nat: "foldl (\<lambda>a c. 10 * a + digit_val c) 0 (str_nat n) = n"
proof (induction n rule: str_nat.induct)
  case (1 n)
  show ?case
  proof (cases "n < 10")
    case True
    then show ?thesis by (simp add: str_nat.simps [of n] digit_char_props)
  next
    case False
    with "1.IH" show ?thesis
      by (simp add: str_nat.simps [of n] digit_char_props)
  qed
qed

lemma parse_dec_str_nat: "parse_dec (str_nat n) = Some n"
proof -
  obtain c cs where eq: "str_nat n = c # cs"
    using str_nat_nonempty [of n] by (cases "str_nat n") auto
  have "is_digit c" using str_nat_digits [of c n] eq by simp
  moreover have "dec_digits (str_nat n @ []) 0 = Some n"
    using dec_digits_all_digits [of "str_nat n" "[]" 0] str_nat_digits foldl_str_nat by simp
  ultimately show ?thesis by (simp add: parse_dec_def eq)
qed

text \<open>The digits of a number are read back when they are within the limit, and refused beyond it.\<close>

lemma int_of_digits_str_nat:
  "int_of_digits (str_nat n) =
     (if int_max_str_digits < length (str_nat n)
      then Inl (ValueError ''Exceeds the limit (4300 digits) for integer string conversion'')
      else Inr n)"
  by (simp add: int_of_digits_def parse_dec_str_nat digit_count_str_nat)

subsection \<open>Stripping\<close>

lemma strip_by_padded:
  assumes "xs \<noteq> []" and "\<And>c. c \<in> set xs \<Longrightarrow> \<not> P c"
    and "list_all P l" and "list_all P r"
  shows "strip_by P (l @ xs @ r) = xs"
proof -
  have nospace: "dropWhile P ys = ys" if "\<And>c. c \<in> set ys \<Longrightarrow> \<not> P c" for ys
    using that by (cases ys) auto
  have "dropWhile P (l @ xs @ r) = dropWhile P (xs @ r)"
    by (rule dropWhile_append2) (use assms(3) in \<open>simp add: list_all_iff\<close>)
  also have "\<dots> = xs @ r"
    using assms(1,2) by (cases xs) auto
  finally have "strip_by P (l @ xs @ r) = rev (dropWhile P (rev r @ rev xs))"
    by (simp add: strip_by_def)
  also have "dropWhile P (rev r @ rev xs) = dropWhile P (rev xs)"
    by (rule dropWhile_append2) (use assms(4) in \<open>simp add: list_all_iff\<close>)
  also have "\<dots> = rev xs" using assms(2) by (intro nospace) simp
  finally show ?thesis by simp
qed

text \<open>What a strip leaves neither begins nor ends with a character it removes.\<close>

lemma strip_by_ends:
  "strip_by P s = [] \<or> (\<not> P (hd (strip_by P s)) \<and> \<not> P (last (strip_by P s)))"
proof -
  define t where "t = dropWhile P s"
  define u where "u = dropWhile P (rev t)"
  have hd_t: "t = [] \<or> \<not> P (hd t)"
    unfolding t_def by (metis hd_dropWhile)
  have hd_u: "u = [] \<or> \<not> P (hd u)"
    unfolding u_def by (metis hd_dropWhile)
  have strip: "strip_by P s = rev u"
    by (simp add: strip_by_def t_def u_def)
  show ?thesis
  proof (cases "u = []")
    case True
    then show ?thesis by (simp add: strip)
  next
    case False
    then obtain v where v: "rev t = v @ u"
      unfolding u_def by (metis takeWhile_dropWhile_id)
    have "t = rev u @ rev v" using v by (metis rev_append rev_rev_ident)
    then have "hd t = hd (rev u)" and "t \<noteq> []" using False by simp_all
    then have "\<not> P (hd (rev u))" using hd_t by simp
    moreover have "\<not> P (last (rev u))" using hd_u False by (simp add: last_rev)
    ultimately show ?thesis by (simp add: strip)
  qed
qed

lemma strip_by_fixed:
  assumes "s = [] \<or> (\<not> Q (hd s) \<and> \<not> Q (last s))"
  shows "strip_by Q s = s"
proof (cases "s = []")
  case True
  then show ?thesis by (simp add: strip_by_def)
next
  case False
  with assms have h: "\<not> Q (hd s)" and l: "\<not> Q (last s)" by simp_all
  have "dropWhile Q s = s" using False h by (cases s) auto
  moreover have "dropWhile Q (rev s) = rev s"
    using False l by (cases "rev s") (auto simp: last_rev [symmetric] hd_rev)
  ultimately show ?thesis by (simp add: strip_by_def)
qed

lemma strip_by_strip_by:
  assumes "\<And>c. Q c \<Longrightarrow> P c"
  shows "strip_by Q (strip_by P s) = strip_by P s"
  using strip_by_ends [of P s] assms by (intro strip_by_fixed) blast

lemma int_strip_py_strip: "strip_by int_space (py_strip s) = py_strip s"
  unfolding py_strip_def by (rule strip_by_strip_by) (rule int_space_is_space)

lemma py_strip_padded:
  assumes "xs \<noteq> []" and "\<And>c. c \<in> set xs \<Longrightarrow> \<not> is_space c"
    and "list_all is_space l" and "list_all is_space r"
  shows "py_strip (l @ xs @ r) = xs"
  unfolding py_strip_def using assms by (rule strip_by_padded)

subsection \<open>Reading an integer\<close>

lemma py_int_stripped:
  "py_int (py_strip s) =
     (case py_strip s of
        [] \<Rightarrow> Inl (ValueError ''invalid literal for int() with base 10'')
      | c # cs \<Rightarrow>
          if c = CHR ''-'' then
            (case int_of_digits cs of Inl e \<Rightarrow> Inl e | Inr n \<Rightarrow> Inr (- int n))
          else if c = CHR ''+'' then
            (case int_of_digits cs of Inl e \<Rightarrow> Inl e | Inr n \<Rightarrow> Inr (int n))
          else
            (case int_of_digits (c # cs) of Inl e \<Rightarrow> Inl e | Inr n \<Rightarrow> Inr (int n)))"
  by (simp add: py_int_def int_strip_py_strip)

lemma py_int_after_strip:
  assumes "py_strip s = t"
  shows "py_int (py_strip s) =
     (case t of
        [] \<Rightarrow> Inl (ValueError ''invalid literal for int() with base 10'')
      | c # cs \<Rightarrow>
          if c = CHR ''-'' then
            (case int_of_digits cs of Inl e \<Rightarrow> Inl e | Inr n \<Rightarrow> Inr (- int n))
          else if c = CHR ''+'' then
            (case int_of_digits cs of Inl e \<Rightarrow> Inl e | Inr n \<Rightarrow> Inr (int n))
          else
            (case int_of_digits (c # cs) of Inl e \<Rightarrow> Inl e | Inr n \<Rightarrow> Inr (int n)))"
  using py_int_stripped [of s] assms by simp

lemma py_int_str_nat:
  assumes "list_all is_space l" and "list_all is_space r"
  shows "py_int (py_strip (l @ str_nat n @ r)) =
     (if int_max_str_digits < length (str_nat n)
      then Inl (ValueError ''Exceeds the limit (4300 digits) for integer string conversion'')
      else Inr (int n))"
proof -
  have strip: "py_strip (l @ str_nat n @ r) = str_nat n"
    using assms str_nat_digits str_nat_nonempty by (intro py_strip_padded) auto
  obtain c cs where eq: "str_nat n = c # cs"
    using str_nat_nonempty [of n] by (cases "str_nat n") auto
  have "is_digit c" using str_nat_digits [of c n] eq by simp
  then have ns: "c \<noteq> CHR ''-''" "c \<noteq> CHR ''+''"
    using is_digit_not_sign by blast+
  have digits: "int_of_digits (c # cs) =
     (if int_max_str_digits < length (c # cs)
      then Inl (ValueError ''Exceeds the limit (4300 digits) for integer string conversion'')
      else Inr n)"
    using int_of_digits_str_nat [of n] unfolding eq .
  from py_int_after_strip [OF strip] show ?thesis
    unfolding eq by (simp add: ns digits del: length_Cons)
qed

lemma py_int_str_neg:
  assumes "list_all is_space l" and "list_all is_space r"
  shows "py_int (py_strip (l @ (CHR ''-'' # str_nat n) @ r)) =
     (if int_max_str_digits < length (str_nat n)
      then Inl (ValueError ''Exceeds the limit (4300 digits) for integer string conversion'')
      else Inr (- int n))"
proof -
  have "\<not> is_space CHR ''-''" by (simp add: is_space_def)
  then have strip: "py_strip (l @ (CHR ''-'' # str_nat n) @ r) = CHR ''-'' # str_nat n"
    using assms str_nat_digits by (intro py_strip_padded) auto
  from py_int_after_strip [OF strip] show ?thesis
    by (simp add: int_of_digits_str_nat)
qed

lemma digit_count_py_str: "digit_count (py_str i) = length (str_nat (nat \<bar>i\<bar>))"
proof (cases "i < 0")
  case True
  have "\<not> is_digit CHR ''-''" by (simp add: is_digit_def)
  with True show ?thesis
    using digit_count_str_nat [of "nat (- i)"] by (simp add: py_str_def digit_count_def)
next
  case False
  then show ?thesis
    using digit_count_str_nat [of "nat i"] by (simp add: py_str_def)
qed

text \<open>
  Reading back what \<^verbatim>\<open>str\<close> printed, with white space around it, gives the integer
  when it has at most 4300 digits, and is refused when it has more.
\<close>

lemma py_int_py_str:
  assumes "list_all is_space l" and "list_all is_space r" and "within_digit_limit i"
  shows "py_int (py_strip (l @ py_str i @ r)) = Inr i"
proof (cases "i < 0")
  case True
  from assms(3) True have "\<not> int_max_str_digits < length (str_nat (nat (- i)))"
    by (simp add: within_digit_limit_def digit_count_py_str)
  with True show ?thesis
    using py_int_str_neg [OF assms(1,2), of "nat (- i)"] by (simp add: py_str_def)
next
  case False
  from assms(3) False have "\<not> int_max_str_digits < length (str_nat (nat i))"
    by (simp add: within_digit_limit_def digit_count_py_str)
  with False show ?thesis
    using py_int_str_nat [OF assms(1,2), of "nat i"] by (simp add: py_str_def)
qed

lemma py_int_py_str_refused:
  assumes "list_all is_space l" and "list_all is_space r" and "\<not> within_digit_limit i"
  shows "\<exists>e. py_int (py_strip (l @ py_str i @ r)) = Inl e"
proof (cases "i < 0")
  case True
  from assms(3) True have "int_max_str_digits < length (str_nat (nat (- i)))"
    by (simp add: within_digit_limit_def digit_count_py_str)
  with True show ?thesis
    using py_int_str_neg [OF assms(1,2), of "nat (- i)"] by (simp add: py_str_def)
next
  case False
  from assms(3) False have "int_max_str_digits < length (str_nat (nat i))"
    by (simp add: within_digit_limit_def digit_count_py_str)
  with False show ?thesis
    using py_int_str_nat [OF assms(1,2), of "nat i"] by (simp add: py_str_def)
qed

text \<open>What a successful parse says about the characters.\<close>

lemma dec_digits_chars: "dec_digits cs acc = Some v \<Longrightarrow> list_all number_char cs"
  by (induction cs acc rule: dec_digits.induct)
     (auto simp: number_char_def split: if_splits list.splits)

lemma int_of_digits_chars:
  assumes "int_of_digits cs = Inr v"
  shows "cs \<noteq> [] \<and> list_all number_char cs"
proof (cases cs)
  case Nil
  with assms show ?thesis by (simp add: int_of_digits_def parse_dec_def)
next
  case (Cons c cs')
  from assms obtain n where "parse_dec (c # cs') = Some n"
    unfolding Cons int_of_digits_def by (auto split: option.splits)
  then have "dec_digits (c # cs') 0 = Some n"
    unfolding parse_dec_def by (simp del: dec_digits.simps split: if_splits)
  from dec_digits_chars [OF this] show ?thesis
    unfolding Cons by simp
qed

lemma py_int_chars:
  assumes "py_int (py_strip s) = Inr v"
  shows "py_strip s \<noteq> [] \<and> list_all number_char (py_strip s)"
proof (cases "py_strip s")
  case Nil
  from py_int_after_strip [OF Nil] assms show ?thesis by simp
next
  case (Cons c cs)
  note parsed = py_int_after_strip [OF Cons]
  consider (minus) "c = CHR ''-''" | (plus) "c = CHR ''+''"
    | (digit) "c \<noteq> CHR ''-''" "c \<noteq> CHR ''+''"
    by blast
  then have "list_all number_char (c # cs)"
  proof cases
    case minus
    with parsed assms obtain n where "int_of_digits cs = Inr n"
      by (cases "int_of_digits cs") simp_all
    from int_of_digits_chars [OF this] minus show ?thesis
      by (simp add: number_char_def)
  next
    case plus
    with parsed assms obtain n where "int_of_digits cs = Inr n"
      by (cases "int_of_digits cs") simp_all
    from int_of_digits_chars [OF this] plus show ?thesis
      by (simp add: number_char_def)
  next
    case digit
    with parsed assms obtain n where "int_of_digits (c # cs) = Inr n"
      by (cases "int_of_digits (c # cs)") simp_all
    from int_of_digits_chars [OF this] show ?thesis by simp
  qed
  then show ?thesis by (simp add: Cons)
qed

lemma py_int_not_a_number:
  assumes "not_a_number s"
  shows "\<exists>e. py_int (py_strip s) = Inl e"
proof (cases "py_int (py_strip s)")
  case (Inl e)
  then show ?thesis by blast
next
  case (Inr v)
  from py_int_chars [OF this] assms show ?thesis
    by (simp add: not_a_number_def)
qed

lemma py_str_512: "py_str 512 = ''512''"
  by code_simp

lemma within_digit_limit_512: "within_digit_limit 512"
  by (simp add: within_digit_limit_def py_str_512 digit_count_def is_digit_def
      int_max_str_digits_def)

lemma not_a_number_max: "not_a_number ''max\<newline>''"
  by code_simp

subsection \<open>Reading a cgroup counter\<close>

lemma read_counter_absent:
  "cgroup_file env p = Missing \<or> cgroup_file env p = Unreadable e \<Longrightarrow> read_counter env p = Inr None"
  by (auto simp: read_counter_def seq_def)

lemma read_counter_malformed:
  "cgroup_file env p = Contents s \<Longrightarrow> not_a_number s \<Longrightarrow> read_counter env p = Inr None"
  using py_int_not_a_number [of s] by (auto simp: read_counter_def seq_def)

lemma read_counter_refused:
  "cgroup_file env p = Contents s \<Longrightarrow> py_int (py_strip s) = Inl e \<Longrightarrow> read_counter env p = Inr None"
  by (simp add: read_counter_def seq_def)

lemma read_counter_number:
  "cgroup_file env p = Contents (l @ py_str i @ r) \<Longrightarrow> list_all is_space l \<Longrightarrow> list_all is_space r
   \<Longrightarrow> within_digit_limit i \<Longrightarrow> read_counter env p = Inr (Some i)"
  using py_int_py_str [of l r i] by (simp add: read_counter_def seq_def)

lemma read_counter_beyond_limit:
  "cgroup_file env p = Contents (l @ py_str i @ r) \<Longrightarrow> list_all is_space l \<Longrightarrow> list_all is_space r
   \<Longrightarrow> \<not> within_digit_limit i \<Longrightarrow> read_counter env p = Inr None"
  using py_int_py_str_refused [of l r i] by (auto simp: read_counter_def seq_def)

lemma read_counter_returns: "\<exists>v. read_counter env p = Inr v"
  by (simp add: read_counter_def split: sum.splits)

subsection \<open>Directory walks\<close>

lemma sum_files_readable:
  "list_all (\<lambda>filename. case gs (os_path_join dirpath filename) of
                Inl e \<Rightarrow> is_OSError e | Inr n \<Rightarrow> True) fs \<Longrightarrow>
   sum_files gs dirpath fs t =
     Inr (t + sum_list (map (\<lambda>filename. readable_size gs (os_path_join dirpath filename)) fs))"
proof (induction fs arbitrary: t)
  case Nil
  then show ?case by simp
next
  case (Cons f fs)
  then show ?case
    by (cases "gs (os_path_join dirpath f)") (simp_all add: readable_size_def)
qed

lemma walk_sizes_readable:
  "only_OSError gs entries \<Longrightarrow>
   walk_sizes gs entries t = Inr (t + readable_total gs entries)"
proof (induction entries arbitrary: t)
  case Nil
  then show ?case by (simp add: readable_total_def)
next
  case (Cons entry entries)
  obtain dirpath dirnames filenames where entry: "entry = (dirpath, dirnames, filenames)"
    by (cases entry) auto
  from Cons.prems have files_ok:
    "list_all (\<lambda>filename. case gs (os_path_join dirpath filename) of
                Inl e \<Rightarrow> is_OSError e | Inr n \<Rightarrow> True) filenames"
    and rest_ok: "only_OSError gs entries"
    by (simp_all add: only_OSError_def entry)
  show ?case
    using sum_files_readable [OF files_ok] Cons.IH [OF rest_ok]
    by (simp add: entry seq_def readable_total_def)
qed

lemma walk_count_listed: "walk_count entries c = c + listed_files entries"
  by (induction entries c rule: walk_count.induct) (simp_all add: listed_files_def)

lemma get_directory_size_returns: "\<exists>n. get_directory_size env path = Inr n"
  by (simp add: get_directory_size_def split: sum.splits)

lemma count_files_returns: "\<exists>n. count_files env path = Inr n"
  by (simp add: count_files_def split: sum.splits)

lemma get_directory_size_readable:
  "os_walk env path = Walk entries None \<Longrightarrow> only_OSError (getsize env) entries \<Longrightarrow>
   get_directory_size env path = Inr (readable_total (getsize env) entries)"
  by (simp add: get_directory_size_def seq_def walk_sizes_readable)

lemma count_files_listed:
  "os_walk env path = Walk entries None \<Longrightarrow> count_files env path = Inr (listed_files entries)"
  by (simp add: count_files_def walk_count_listed)

lemma walk_failure_zero:
  "os_walk env path = Walk [] raised \<or> os_walk env path = Walk entries (Some e) \<Longrightarrow>
   get_directory_size env path = Inr 0 \<and> count_files env path = Inr 0"
  by (auto simp: get_directory_size_def count_files_def seq_def split: sum.splits option.splits)

subsection \<open>Volume records\<close>

lemma inspect_volume_stat:
  "stat_raises env path = Some e \<Longrightarrow> inspect_volume env path = Inl e"
  by (simp add: inspect_volume_def seq_def)

lemma inspect_volume_ismount:
  "stat_raises env path = None \<Longrightarrow> ismount env path = Inl e \<Longrightarrow> inspect_volume env path = Inl e"
  by (simp add: inspect_volume_def seq_def)

lemma inspect_volume_path:
  "inspect_volume env path = Inr d \<Longrightarrow> field ''path'' d = Some (JStr path)"
  using get_directory_size_returns [of env path] count_files_returns [of env path]
  by (auto simp: inspect_volume_def seq_def split: option.splits sum.splits)

lemma volume_record_path: "field ''path'' (volume_record env w path) = Some (JStr path)"
  by (auto simp: volume_record_def inspect_volume_path split: sum.splits)

lemma volumes_paths:
  "map (field ''path'') (volumes_of (get_volume_info env w)) = map (\<lambda>p. Some (JStr p)) volume_paths"
  by (simp add: get_volume_info_def volumes_of_def volume_record_path)

subsection \<open>Percent fields\<close>




lemma get_disk_info_cases:
  "get_disk_info env =
     (case collect_partitions env (disk_partitions env) [] of
        Inl e \<Rightarrow> Inl (Unhandled e)
      | Inr ps \<Rightarrow>
          (case py_truediv (du_used (root_usage env)) (du_total (root_usage env)) of
             Inl e \<Rightarrow> Inl (Unhandled e)
           | Inr q \<Rightarrow>
               Inr (JObj
                 [(''root_disk'', JObj
                    [(''total'', JInt (du_total (root_usage env))),
                     (''used'', JInt (du_used (root_usage env))),
                     (''free'', JInt (du_free (root_usage env))),
                     (''percent'', JFloat (q * 100))]),
                  (''partitions'', JList ps)])))"
  by (simp add: get_disk_info_def seq_def Let_def split: sum.splits)

subsection \<open>The loops of the stress test\<close>

lemma fold_last: "fold (\<lambda>i u. Some (f i)) [0..<Suc n] x = Some (f n)"
  by simp

lemma cpu_loop_last:
  "fold (\<lambda>i u. Some (int i * int i)) [0..<1000000] None = Some (999999 * 999999)"
proof -
  have "fold (\<lambda>i u. Some (int i * int i)) [0..<Suc 999999] None = Some (int 999999 * int 999999)"
    by (rule fold_last)
  then show ?thesis by simp
qed

lemma data_rows:
  "fold (\<lambda>i d. d @ [replicate 100 (int i)]) [0..<n] [] = map (\<lambda>i. replicate 100 (int i)) [0..<n]"
  by (induction n) simp_all

subsection \<open>Steps of \<^verbatim>\<open>fill_disk\<close>\<close>

lemma dirname_test_file: "os_path_dirname test_file = ''/app/data''"
  by (simp add: os_path_dirname_def test_file_def)

lemma prefixes_app_data: "path_prefixes ''/app/data'' = [''/app'', ''/app/data'']"
  by code_simp

text \<open>Making the directory in the two file states of the examples.\<close>

lemma makedirs_world0:
  "makedirs_raises env ''/app/data'' = None \<Longrightarrow>
   os_makedirs env world0 ''/app/data'' =
     (Inr (), world0(''/app'' \<mapsto> Directory, ''/app/data'' \<mapsto> Directory))"
  by (simp add: os_makedirs_def prefixes_app_data world0_def)

lemma makedirs_world_mounted:
  "makedirs_raises env ''/app/data'' = None \<Longrightarrow>
   os_makedirs env world_mounted ''/app/data'' = (Inr (), world_mounted)"
  by (simp add: os_makedirs_def prefixes_app_data world_mounted_def)

text \<open>The handler of \<^verbatim>\<open>fill_disk\<close>, applied to what the body raised.\<close>

lemma fill_disk_handler:
  "size_mb \<le> 100 \<Longrightarrow> fill_body env w size_mb = (Inl e, w') \<Longrightarrow>
   fill_disk env w size_mb =
     (if is_OSError e then Inl (HTTPException 507 (''Disk full: '' @ str_exn e))
      else Inl (Unhandled e), w')"
  by (simp add: fill_disk_def)

lemma fill_body_makedirs:
  "os_makedirs env w ''/app/data'' = (Inl e, w1) \<Longrightarrow> fill_body env w size_mb = (Inl e, w1)"
  by (simp add: fill_body_def dirname_test_file)

lemma fill_body_open:
  "os_makedirs env w ''/app/data'' = (Inr u, w1) \<Longrightarrow> open_wb env w1 test_file = (Inl e, w2) \<Longrightarrow>
   fill_body env w size_mb = (Inl e, w2)"
  by (simp add: fill_body_def dirname_test_file)

lemma fill_body_payload:
  "os_makedirs env w ''/app/data'' = (Inr u, w1) \<Longrightarrow> open_wb env w1 test_file = (Inr u', w2) \<Longrightarrow>
   bytes_repeat env CHR ''0'' (size_mb * 1024 * 1024) = Inl e \<Longrightarrow>
   fill_body env w size_mb = (Inl e, w2)"
  by (simp add: fill_body_def dirname_test_file)

lemma fill_body_write:
  "os_makedirs env w ''/app/data'' = (Inr u, w1) \<Longrightarrow> open_wb env w1 test_file = (Inr u', w2) \<Longrightarrow>
   bytes_repeat env CHR ''0'' (size_mb * 1024 * 1024) = Inr bytes \<Longrightarrow>
   write_raises env test_file (length bytes) = Some (e, k) \<Longrightarrow>
   fill_body env w size_mb = (Inl e, w2(test_file \<mapsto> RegularFile (take k bytes)))"
  by (simp add: fill_body_def dirname_test_file file_write_def)

lemma fill_body_returns:
  assumes "os_makedirs env w ''/app/data'' = (Inr u, w1)"
    and "open_wb env w1 test_file = (Inr u', w2)"
    and "bytes_repeat env CHR ''0'' (size_mb * 1024 * 1024) = Inr bytes"
    and "write_raises env test_file (length bytes) = None"
  shows "\<exists>usage. get_directory_size env ''/app/data'' = Inr usage \<and>
     fill_body env w size_mb =
       (Inr (JObj
          [(''message'', JStr (''Created '' @ py_str size_mb @ ''MB test file'')),
           (''file_path'', JStr test_file),
           (''timestamp'', JStr (now env)),
           (''disk_usage'', JInt usage)]),
        w2(test_file \<mapsto> RegularFile bytes))"
proof -
  obtain usage where "get_directory_size env ''/app/data'' = Inr usage"
    using get_directory_size_returns by blast
  with assms show ?thesis
    by (simp add: fill_body_def dirname_test_file file_write_def)
qed

text \<open>A file that has been opened for writing is there, and empty.\<close>

lemma open_wb_empty: "open_wb env w p = (Inr u, w') \<Longrightarrow> w' p = Some (RegularFile [])"
  by (auto simp: open_wb_def split: option.splits fs_node.splits)

text \<open>
  Every \<^verbatim>\<open>OSError\<close> of the three steps is answered in the same way, whatever its
  \<^verbatim>\<open>errno\<close>; the \<^verbatim>\<open>MemoryError\<close> of building the bytes is not caught.
\<close>

lemma fill_disk_every_OSError:
  assumes "size_mb \<le> 100" and "is_OSError e"
    and "os_makedirs env w ''/app/data'' = (Inl e, w1) \<or>
      os_makedirs env w ''/app/data'' = (Inr (), w1) \<and>
        (open_wb env w1 test_file = (Inl e, w2) \<or>
         open_wb env w1 test_file = (Inr (), w2) \<and>
         bytes_repeat env CHR ''0'' (size_mb * 1024 * 1024) = Inr bytes \<and>
         write_raises env test_file (length bytes) = Some (e, k))"
  shows "fst (fill_disk env w size_mb) = Inl (HTTPException 507 (''Disk full: '' @ str_exn e))"
  using assms(3)
proof (elim disjE conjE)
  assume "os_makedirs env w ''/app/data'' = (Inl e, w1)"
  from fill_disk_handler [OF assms(1) fill_body_makedirs [OF this]] assms(2)
  show ?thesis by simp
next
  assume "os_makedirs env w ''/app/data'' = (Inr (), w1)"
    and "open_wb env w1 test_file = (Inl e, w2)"
  from fill_disk_handler [OF assms(1) fill_body_open [OF this]] assms(2)
  show ?thesis by simp
next
  assume "os_makedirs env w ''/app/data'' = (Inr (), w1)"
    and "open_wb env w1 test_file = (Inr (), w2)"
    and "bytes_repeat env CHR ''0'' (size_mb * 1024 * 1024) = Inr bytes"
    and "write_raises env test_file (length bytes) = Some (e, k)"
  from fill_disk_handler [OF assms(1) fill_body_write [OF this]] assms(2)
  show ?thesis by simp
qed

lemma fill_disk_memory_error:
  assumes "size_mb \<le> 100"
    and "os_makedirs env w ''/app/data'' = (Inr (), w1)"
    and "open_wb env w1 test_file = (Inr (), w2)"
    and "bytes_repeat env CHR ''0'' (size_mb * 1024 * 1024) = Inl MemoryError"
  shows "fill_disk env w size_mb = (Inl (Unhandled MemoryError), w2)"
  using fill_disk_handler [OF assms(1) fill_body_payload [OF assms(2,3,4)]] by simp

subsection \<open>Sizes within the cap\<close>

lemma allocate_memory_not_400: "size_mb \<le> 1000 \<Longrightarrow> http_status (fst (allocate_memory env size_mb)) \<noteq> 400"
  by (auto simp: allocate_memory_def split: sum.splits py_exn.splits prod.splits)

lemma fill_disk_not_400: "size_mb \<le> 100 \<Longrightarrow> http_status (fst (fill_disk env w size_mb)) \<noteq> 400"
  by (auto simp: fill_disk_def split: sum.splits prod.splits)

text \<open>
  The count \<open>size_mb * 1024 * 1024\<close> fits the index type from \<open>size_mb = - 2 ^ 43\<close> on,
  which is \<open>- 8796093022208\<close>.
\<close>

lemma allocate_memory_negative:
  "- 8796093022208 \<le> size_mb \<Longrightarrow> size_mb < 0 \<Longrightarrow>
   allocate_memory env size_mb = (Inl (Unhandled (ValueError ''negative count'')), None)"
  by (simp add: allocate_memory_def allocate_body_def bytearray_def as_index_def seq_def)

lemma allocate_memory_overflow:
  "size_mb < - 8796093022208 \<Longrightarrow>
   allocate_memory env size_mb =
     (Inl (Unhandled (OverflowError ''cannot fit 'int' into an index-sized integer'')), None)"
  by (simp add: allocate_memory_def allocate_body_def bytearray_def as_index_def seq_def)

lemma fill_disk_empty:
  assumes "- 8796093022208 \<le> size_mb" and "size_mb \<le> 0"
    and "os_makedirs env w ''/app/data'' = (Inr (), w1)"
    and "open_wb env w1 test_file = (Inr (), w2)"
    and "write_raises env test_file 0 = None"
  shows "\<exists>usage. fill_disk env w size_mb =
       (Inr (JObj
          [(''message'', JStr (''Created '' @ py_str size_mb @ ''MB test file'')),
           (''file_path'', JStr test_file),
           (''timestamp'', JStr (now env)),
           (''disk_usage'', JInt usage)]),
        w2(test_file \<mapsto> RegularFile []))"
proof -
  have b: "bytes_repeat env CHR ''0'' (size_mb * 1024 * 1024) = Inr []"
    using assms(1,2) by (simp add: bytes_repeat_def as_index_def seq_def)
  have "write_raises env test_file (length ([] :: string)) = None"
    using assms(5) by simp
  from fill_body_returns [OF assms(3,4) b this] assms(2) show ?thesis
    by (auto simp: fill_disk_def)
qed

lemma fill_disk_overflow:
  assumes "size_mb < - 8796093022208"
    and "os_makedirs env w ''/app/data'' = (Inr (), w1)"
    and "open_wb env w1 test_file = (Inr (), w2)"
  shows "fill_disk env w size_mb =
       (Inl (Unhandled (OverflowError ''cannot fit 'int' into an index-sized integer'')), w2) \<and>
     w2 test_file = Some (RegularFile [])"
proof -
  have b: "bytes_repeat env CHR ''0'' (size_mb * 1024 * 1024) =
      Inl (OverflowError ''cannot fit 'int' into an index-sized integer'')"
    using assms(1) by (simp add: bytes_repeat_def as_index_def seq_def)
  have "size_mb \<le> 100" using assms(1) by simp
  from fill_disk_handler [OF this fill_body_payload [OF assms(2,3) b]] open_wb_empty [OF assms(3)]
  show ?thesis by simp
qed

lemma py_str_minus_3: "py_str (- 3) = ''-3''"
  by code_simp

subsection \<open>Cleaning up\<close>

text \<open>A removal that fails leaves the file state as it was.\<close>

lemma os_remove_fails: "os_remove env w p = (Inl e, w') \<Longrightarrow> w' = w"
  by (auto simp: os_remove_def split: option.splits fs_node.splits)

section \<open>The claims\<close>

subsection \<open>C1: a partition without capacity\<close>

text \<open>
  C1. A partition whose total size is 0 is left out of the result and causes no division
  error. The code does not do this: the loop catches \<^verbatim>\<open>PermissionError\<close> only, the
  division raises \<^verbatim>\<open>ZeroDivisionError\<close>, and the whole call fails. So it is on a host
  with one ordinary partition and one that reports no capacity; on a host with a partition
  that may not be queried, that partition is left out and the others are listed.
\<close>

theorem zero_capacity_partition_raises:
  "get_disk_info host_fuse = Inl (Unhandled (ZeroDivisionError ''division by zero'')) \<and>
   (\<exists>d. get_disk_info host_denied = Inr d \<and> length (disk_partitions host_denied) = 3 \<and>
        map (field ''mountpoint'') (partitions_of d) = [Some (JStr ''/''), Some (JStr ''/app/data'')])"
  by (simp add: get_disk_info_cases host_fuse_def host_denied_def host0_def partition_entry_def
      seq_def py_truediv_def partitions_of_def)

subsection \<open>C2: sizes above the safety cap\<close>

text \<open>
  C2. A \<open>size_mb\<close> above 1000 given to \<^verbatim>\<open>allocate_memory\<close>, and a \<open>size_mb\<close> above 100
  given to \<^verbatim>\<open>fill_disk\<close>, is answered by the \<^verbatim>\<open>HTTPException\<close> with status 400, and
  nothing is touched: no buffer has been allocated, and the file state is the one the call
  started from.
\<close>

theorem safety_cap_rejects:
  "(1000 < size_mb \<longrightarrow>
      allocate_memory env size_mb =
        (Inl (HTTPException 400 ''Size too large (max 1000MB)''), None)) \<and>
   (100 < size_mb \<longrightarrow>
      fill_disk env w size_mb = (Inl (HTTPException 400 ''Size too large (max 100MB)''), w))"
  by (simp add: allocate_memory_def fill_disk_def)

theorem safety_cap_rejects_witness:
  "allocate_memory host0 2000 = (Inl (HTTPException 400 ''Size too large (max 1000MB)''), None) \<and>
   fill_disk host0 world0 2000 = (Inl (HTTPException 400 ''Size too large (max 100MB)''), world0)"
  using safety_cap_rejects [of 2000 host0 world0] by simp

subsection \<open>C3: the stress test\<close>

text \<open>
  C3. The stress test runs a loop of 1000000 iterations and then builds 10000 lists of 100
  integers; its result reports the duration (the second clock reading minus the first) and
  the CPU and memory percentages read after the load. The percentages read before the load
  are kept in the local variables \<^verbatim>\<open>cpu_start\<close> and \<^verbatim>\<open>memory_start\<close> and are not part of
  the result.
\<close>

theorem stress_test_reports_after_only:
  "fst (stress_test r) =
     Inr (JObj
       [(''message'', JStr ''Stress test completed''),
        (''duration'', JFloat (clock_2 r - clock_1 r)),
        (''cpu_usage'', JFloat (cpu_percent_2 r)),
        (''memory_usage'', JFloat (vm_percent_2 r)),
        (''timestamp'', JStr (timestamp r))]) \<and>
   cpu_start (snd (stress_test r)) = cpu_percent_1 r \<and>
   memory_start (snd (stress_test r)) = vm_percent_1 r \<and>
   underscore (snd (stress_test r)) = Some (999999 * 999999) \<and>
   length (data (snd (stress_test r))) = 10000 \<and>
   map length (data (snd (stress_test r))) = replicate 10000 100"
  by (simp add: stress_test_def Let_def cpu_loop_last data_rows map_replicate_const comp_def
      del: upt_Suc)

text \<open>
  The claim as the specification states it, that the result reports the percentages before
  the load as well, fails: two runs that differ only in the readings taken before the load
  give the same result.
\<close>

theorem stress_test_omits_before:
  "fst (stress_test readings_a) = fst (stress_test readings_b) \<and>
   cpu_percent_1 readings_a \<noteq> cpu_percent_1 readings_b \<and>
   vm_percent_1 readings_a \<noteq> vm_percent_1 readings_b"
  by (simp add: stress_test_def Let_def readings_a_def readings_b_def)

subsection \<open>C4: failures of \<^verbatim>\<open>fill_disk\<close>\<close>

text \<open>
  C4. A fill that fails because the file system has no room is to be answered apart from
  a fill that fails by any other file-system error. The code does not do this: its one
  handler, \<^verbatim>\<open>except OSError\<close>, answers both by status 507 and the label \<open>Disk full\<close>.
  On a full disk the write fails and the answer is 507; on a read-only \<^verbatim>\<open>/app/data\<close>
  the open fails and the answer is 507 as well, \<open>Disk full\<close> before the message of a
  file system that is not full. The handler of \<^verbatim>\<open>allocate_memory\<close> does tell the two
  apart: it answers 507 for the \<^verbatim>\<open>MemoryError\<close> only and leaves any other exception alone.
\<close>

theorem disk_full_not_distinct:
  "fst (fill_disk host_full world0 10) =
     Inl (HTTPException 507 ''Disk full: [Errno 28] No space left on device'') \<and>
   fst (fill_disk host_readonly world_mounted 10) =
     Inl (HTTPException 507
       (''Disk full: [Errno 30] Read-only file system: '' @ quoted ''/app/data/test_file.bin'')) \<and>
   http_status (fst (fill_disk host_readonly world_mounted 10)) =
     http_status (fst (fill_disk host_full world0 10)) \<and>
   fst (allocate_memory host_tight 5) = Inl (HTTPException 507 ''Insufficient memory'') \<and>
   fst (allocate_memory host_tight (- 3)) = Inl (Unhandled (ValueError ''negative count''))"
proof -
  let ?w1 = "world0(''/app'' \<mapsto> Directory, ''/app/data'' \<mapsto> Directory)"
  have m: "os_makedirs host_full world0 ''/app/data'' = (Inr (), ?w1)"
    by (rule makedirs_world0) (simp add: host_full_def host0_def)
  have o: "open_wb host_full ?w1 test_file = (Inr (), ?w1(test_file \<mapsto> RegularFile []))"
    by (simp add: open_wb_def host_full_def host0_def world0_def test_file_def)
  have b: "bytes_repeat host_full CHR ''0'' (10 * 1024 * 1024) = Inr (replicate 10485760 CHR ''0'')"
    by (simp add: bytes_repeat_def as_index_def seq_def host_full_def host0_def)
  have wr: "write_raises host_full test_file (length (replicate 10485760 CHR ''0''))
             = Some (OSError ''[Errno 28] No space left on device'', 0)"
    by (simp add: host_full_def host0_def)
  have full: "fill_body host_full world0 10 =
      (Inl (OSError ''[Errno 28] No space left on device''), ?w1(test_file \<mapsto> RegularFile []))"
    using fill_body_write [OF m o b wr] by simp
  have m': "os_makedirs host_readonly world_mounted ''/app/data'' = (Inr (), world_mounted)"
    by (rule makedirs_world_mounted) (simp add: host_readonly_def host0_def)
  have o': "open_wb host_readonly world_mounted test_file =
      (Inl (OSError (''[Errno 30] Read-only file system: '' @ quoted test_file)), world_mounted)"
    by (simp add: open_wb_def host_readonly_def host0_def)
  have ro: "fill_body host_readonly world_mounted 10 =
      (Inl (OSError (''[Errno 30] Read-only file system: '' @ quoted test_file)), world_mounted)"
    by (rule fill_body_open [OF m' o'])
  have a: "fst (allocate_memory host_tight 5) = Inl (HTTPException 507 ''Insufficient memory'')"
    by (simp add: allocate_memory_def allocate_body_def bytearray_def as_index_def seq_def
        host_tight_def host0_def)
  have a': "fst (allocate_memory host_tight (- 3)) = Inl (Unhandled (ValueError ''negative count''))"
    by (simp add: allocate_memory_negative)
  show ?thesis
    using fill_disk_handler [OF _ full] fill_disk_handler [OF _ ro] a a'
    by (simp add: test_file_def)
qed

subsection \<open>C5: the directory walks\<close>

text \<open>
  C5. \<^verbatim>\<open>get_directory_size\<close> and \<^verbatim>\<open>count_files\<close> return for every directory tree,
  they never raise. When the walk ends normally and reading a size raises nothing but
  \<^verbatim>\<open>OSError\<close>, the size is the sum over the files whose size can be read: a file whose
  size cannot be read is skipped and the walk goes on. The count is the number of file
  names the walk lists. When the walk yields nothing, or ends by an exception, both
  results are 0.
\<close>

theorem walk_tolerates_failures:
  "(\<exists>n. get_directory_size env path = Inr n) \<and> (\<exists>n. count_files env path = Inr n) \<and>
   (os_walk env path = Walk entries None \<and> only_OSError (getsize env) entries \<longrightarrow>
      get_directory_size env path = Inr (readable_total (getsize env) entries)) \<and>
   (os_walk env path = Walk entries None \<longrightarrow>
      count_files env path = Inr (listed_files entries)) \<and>
   (os_walk env path = Walk [] raised \<or> os_walk env path = Walk entries (Some e) \<longrightarrow>
      get_directory_size env path = Inr 0 \<and> count_files env path = Inr 0)"
  using get_directory_size_returns count_files_returns get_directory_size_readable
    count_files_listed walk_failure_zero
  by blast

theorem walk_tolerates_failures_witness:
  "get_directory_size host_tree ''/app/data'' = Inr 42 \<and>
   count_files host_tree ''/app/data'' = Inr 3 \<and>
   get_directory_size host0 ''/app/logs'' = Inr 0 \<and> count_files host0 ''/app/logs'' = Inr 0"
proof -
  let ?entries = "[(''/app/data'', [''sub''], [''a.txt'', ''gone.txt'']),
                   (''/app/data/sub'', [], [''b.bin''])]"
  have w: "os_walk host_tree ''/app/data'' = Walk ?entries None"
    by (simp add: host_tree_def host0_def)
  have ok: "only_OSError (getsize host_tree) ?entries"
    by (simp add: only_OSError_def host_tree_def host0_def os_path_join_def)
  have total: "readable_total (getsize host_tree) ?entries = 42"
    by (simp add: readable_total_def readable_size_def host_tree_def host0_def os_path_join_def)
  have listed: "listed_files ?entries = 3"
    by (simp add: listed_files_def)
  have e: "os_walk host0 ''/app/logs'' = Walk [] None"
    by (simp add: host0_def)
  show ?thesis
    using walk_tolerates_failures [of host_tree "''/app/data''" ?entries None MemoryError]
      walk_tolerates_failures [of host0 "''/app/logs''" "[]" None MemoryError]
      w ok total listed e
    by (simp add: listed_files_def)
qed

subsection \<open>C6: the cgroup limits\<close>

text \<open>
  C6. \<^verbatim>\<open>get_memory_limit\<close> and \<^verbatim>\<open>get_cgroup_memory\<close> never raise: whatever the state of
  the accounting file, each returns a value. The value is \<open>None\<close> when the file is missing,
  when opening or reading it raises, and when \<^verbatim>\<open>int\<close> refuses its text, as it does a text
  that is not a number (nothing but white space, or a character no integer literal holds).
  When the file holds the decimal text of an integer \<open>i\<close> of at most 4300 digits (a counter
  of the kernel has at most 20), with white space around it as the kernel's newline, the
  value is \<open>i\<close>.
\<close>

theorem limit_resolution_never_raises:
  "(\<exists>v. get_memory_limit env = Inr v) \<and> (\<exists>v. get_cgroup_memory env = Inr v) \<and>
   (cgroup_file env ''/sys/fs/cgroup/memory/memory.limit_in_bytes'' = Missing \<or>
    cgroup_file env ''/sys/fs/cgroup/memory/memory.limit_in_bytes'' = Unreadable e \<or>
    cgroup_file env ''/sys/fs/cgroup/memory/memory.limit_in_bytes'' = Contents s \<and>
      (not_a_number s \<or> py_int (py_strip s) = Inl e')
      \<longrightarrow> get_memory_limit env = Inr None) \<and>
   (cgroup_file env ''/sys/fs/cgroup/memory/memory.usage_in_bytes'' = Missing \<or>
    cgroup_file env ''/sys/fs/cgroup/memory/memory.usage_in_bytes'' = Unreadable e \<or>
    cgroup_file env ''/sys/fs/cgroup/memory/memory.usage_in_bytes'' = Contents s \<and>
      (not_a_number s \<or> py_int (py_strip s) = Inl e')
      \<longrightarrow> get_cgroup_memory env = Inr None) \<and>
   (list_all is_space l \<and> list_all is_space r \<and> within_digit_limit i \<and>
    cgroup_file env ''/sys/fs/cgroup/memory/memory.limit_in_bytes'' = Contents (l @ py_str i @ r)
      \<longrightarrow> get_memory_limit env = Inr (Some i)) \<and>
   (list_all is_space l \<and> list_all is_space r \<and> within_digit_limit i \<and>
    cgroup_file env ''/sys/fs/cgroup/memory/memory.usage_in_bytes'' = Contents (l @ py_str i @ r)
      \<longrightarrow> get_cgroup_memory env = Inr (Some i))"
  unfolding get_memory_limit_def get_cgroup_memory_def
  using read_counter_returns read_counter_absent read_counter_malformed read_counter_refused
    read_counter_number
  by blast

theorem limit_resolution_never_raises_witness:
  "get_memory_limit host0 = Inr None \<and> get_cgroup_memory host0 = Inr None \<and>
   get_memory_limit container1 = Inr None \<and> get_cgroup_memory container1 = Inr (Some 512) \<and>
   get_memory_limit container_nbsp = Inr None \<and>
   get_cgroup_memory container_nbsp = Inr (Some 512)"
proof -
  have sp: "list_all is_space []" "list_all is_space ''\<newline>''" "list_all is_space [CHR 0xA0]"
    by (simp_all add: is_space_def)
  have a: "cgroup_file host0 ''/sys/fs/cgroup/memory/memory.limit_in_bytes'' = Missing"
      "cgroup_file host0 ''/sys/fs/cgroup/memory/memory.usage_in_bytes'' = Missing"
    by (simp_all add: host0_def)
  have b: "cgroup_file container1 ''/sys/fs/cgroup/memory/memory.limit_in_bytes''
             = Contents ''max\<newline>''"
    by (simp add: container1_def)
  have c: "cgroup_file container1 ''/sys/fs/cgroup/memory/memory.usage_in_bytes''
             = Contents ([] @ py_str 512 @ ''\<newline>'')"
    by (simp add: container1_def py_str_512)
  have d: "cgroup_file container_nbsp ''/sys/fs/cgroup/memory/memory.limit_in_bytes'' = Missing"
      "cgroup_file container_nbsp ''/sys/fs/cgroup/memory/memory.usage_in_bytes''
         = Contents ([CHR 0xA0] @ py_str 512 @ ''\<newline>'')"
    by (simp_all add: container_nbsp_def py_str_512)
  show ?thesis
    using limit_resolution_never_raises [of host0 MemoryError "[]" MemoryError "[]" "[]" 0] a
      limit_resolution_never_raises
        [of container1 MemoryError "''max\<newline>''" MemoryError "[]" "''\<newline>''" 512] b c
      limit_resolution_never_raises
        [of container_nbsp MemoryError "[]" MemoryError "[CHR 0xA0]" "''\<newline>''" 512] d sp
      not_a_number_max within_digit_limit_512
    by simp
qed

subsection \<open>C7: the volume records\<close>

text \<open>
  C7. For a path that does not exist the record is exactly \<open>{path, exists = False}\<close>.
  For a path that exists, when \<^verbatim>\<open>os.stat\<close> or \<^verbatim>\<open>os.path.ismount\<close> raises, the record is
  exactly \<open>{path, exists = True, error = str(e)}\<close>, with no size and no file count.
  When the two return, the record is \<open>{path, exists = True, is_mount, size, files}\<close> with
  no error, whatever fails while the size and the files are counted: the two walks keep
  their errors to themselves. The enumeration always returns, with one record for each
  candidate path, in order.
\<close>

theorem volume_records:
  "(\<not> os_path_exists w path \<longrightarrow>
      volume_record env w path = JObj [(''path'', JStr path), (''exists'', JBool False)]) \<and>
   (os_path_exists w path \<and>
    (stat_raises env path = Some e \<or> stat_raises env path = None \<and> ismount env path = Inl e) \<longrightarrow>
      volume_record env w path =
        JObj [(''path'', JStr path), (''exists'', JBool True), (''error'', JStr (str_exn e))]) \<and>
   (os_path_exists w path \<and> stat_raises env path = None \<and> ismount env path = Inr m \<longrightarrow>
      (\<exists>size n. get_directory_size env path = Inr size \<and> count_files env path = Inr n \<and>
         volume_record env w path =
           JObj [(''path'', JStr path), (''exists'', JBool True), (''is_mount'', JBool m),
                 (''size'', JInt size), (''files'', JInt n)])) \<and>
   (\<exists>j. get_volume_info env w = Inr j) \<and>
   map (field ''path'') (volumes_of (get_volume_info env w)) =
     map (\<lambda>p. Some (JStr p)) volume_paths"
proof (intro conjI impI; (elim conjE)?)
  show "volume_record env w path = JObj [(''path'', JStr path), (''exists'', JBool False)]"
    if "\<not> os_path_exists w path"
    using that by (simp add: volume_record_def)
next
  assume ex: "os_path_exists w path"
    and raised: "stat_raises env path = Some e \<or>
      stat_raises env path = None \<and> ismount env path = Inl e"
  from raised have "inspect_volume env path = Inl e"
    using inspect_volume_stat [of env path e] inspect_volume_ismount [of env path e] by blast
  with ex show "volume_record env w path =
      JObj [(''path'', JStr path), (''exists'', JBool True), (''error'', JStr (str_exn e))]"
    by (simp add: volume_record_def)
next
  assume ex: "os_path_exists w path" and st: "stat_raises env path = None"
    and mt: "ismount env path = Inr m"
  obtain size n where sz: "get_directory_size env path = Inr size"
    and cn: "count_files env path = Inr n"
    using get_directory_size_returns count_files_returns by blast
  have "inspect_volume env path =
      Inr (JObj [(''path'', JStr path), (''exists'', JBool True), (''is_mount'', JBool m),
                 (''size'', JInt size), (''files'', JInt n)])"
    by (simp add: inspect_volume_def seq_def st mt sz cn)
  with ex sz cn show "\<exists>size n. get_directory_size env path = Inr size \<and>
      count_files env path = Inr n \<and>
      volume_record env w path =
        JObj [(''path'', JStr path), (''exists'', JBool True), (''is_mount'', JBool m),
              (''size'', JInt size), (''files'', JInt n)]"
    by (simp add: volume_record_def)
next
  show "\<exists>j. get_volume_info env w = Inr j"
    by (simp add: get_volume_info_def)
next
  show "map (field ''path'') (volumes_of (get_volume_info env w)) =
      map (\<lambda>p. Some (JStr p)) volume_paths"
    by (rule volumes_paths)
qed

theorem volume_records_witness:
  "volume_record host_race world0 ''/app/data'' =
     JObj [(''path'', JStr ''/app/data''), (''exists'', JBool False)] \<and>
   volume_record host_race world0 ''/tmp'' =
     JObj [(''path'', JStr ''/tmp''), (''exists'', JBool True),
           (''error'', JStr (''[Errno 2] No such file or directory: '' @ quoted ''/tmp''))] \<and>
   volume_record host_race world0 ''/var/log'' =
     JObj [(''path'', JStr ''/var/log''), (''exists'', JBool True), (''is_mount'', JBool False),
           (''size'', JInt 0), (''files'', JInt 0)] \<and>
   map (field ''path'') (volumes_of (get_volume_info host_race world0)) =
     [Some (JStr ''/app/data''), Some (JStr ''/app/logs''), Some (JStr ''/app/backups''),
      Some (JStr ''/tmp''), Some (JStr ''/var/log'')]"
proof -
  have a: "\<not> os_path_exists world0 ''/app/data''" "os_path_exists world0 ''/tmp''"
      "os_path_exists world0 ''/var/log''"
    by (simp_all add: os_path_exists_def world0_def)
  have b: "stat_raises host_race ''/tmp'' =
      Some (FileNotFoundError (''[Errno 2] No such file or directory: '' @ quoted ''/tmp''))"
      "stat_raises host_race ''/var/log'' = None" "ismount host_race ''/var/log'' = Inr False"
    by (simp_all add: host_race_def host0_def)
  have c: "get_directory_size host_race ''/var/log'' = Inr 0"
      "count_files host_race ''/var/log'' = Inr 0"
    by (simp_all add: get_directory_size_def count_files_def seq_def host_race_def host0_def)
  show ?thesis
    using volume_records [of world0 "''/app/data''" host_race MemoryError False]
      volume_records [of world0 "''/tmp''" host_race
        "FileNotFoundError (''[Errno 2] No such file or directory: '' @ quoted ''/tmp'')" False]
      volume_records [of world0 "''/var/log''" host_race MemoryError False]
      a b c
    by (simp add: volume_paths_def)
qed

text \<open>
  The claim as the specification states it, that a file-system error during the
  inspection of an existing path gives a record with the error and without size and file
  count, fails: under \<^verbatim>\<open>/app/data\<close> a file vanishes after it was listed, reading its size
  raises \<^verbatim>\<open>FileNotFoundError\<close>, and the record holds a size and a file count and no error.
\<close>

theorem inspection_error_not_reported:
  "getsize host_tree ''/app/data/gone.txt'' =
     Inl (FileNotFoundError
       (''[Errno 2] No such file or directory: '' @ quoted ''/app/data/gone.txt'')) \<and>
   volume_record host_tree world_mounted ''/app/data'' =
     JObj [(''path'', JStr ''/app/data''), (''exists'', JBool True), (''is_mount'', JBool False),
           (''size'', JInt 42), (''files'', JInt 3)] \<and>
   field ''error'' (volume_record host_tree world_mounted ''/app/data'') = None"
  by (simp add: volume_record_def os_path_exists_def world_mounted_def inspect_volume_def seq_def
      get_directory_size_def count_files_def host_tree_def host0_def os_path_join_def)

subsection \<open>C8: cleaning up\<close>

text \<open>
  C8. When the test file is absent, \<^verbatim>\<open>cleanup_disk\<close> reports that no file was found and
  changes nothing. When it is a regular file and the removal raises nothing, the call
  removes it and reports the removal, and a call in the state it leaves, whatever the
  operating system then permits, reports that no file was found. When the path exists and
  the removal raises, the call is answered by status 500 with the message of the error,
  and the file state stays as it was.
\<close>

theorem cleanup_disk_outcomes:
  "(w test_file = None \<longrightarrow>
      cleanup_disk env w =
        (Inr (JObj [(''message'', JStr ''No test file found''), (''timestamp'', JStr (now env))]), w)) \<and>
   (w test_file = Some (RegularFile bytes) \<and> remove_raises env test_file = None \<longrightarrow>
      cleanup_disk env w =
        (Inr (JObj [(''message'', JStr ''Test file removed''), (''timestamp'', JStr (now env))]),
         w(test_file := None)) \<and>
      cleanup_disk env' (w(test_file := None)) =
        (Inr (JObj [(''message'', JStr ''No test file found''), (''timestamp'', JStr (now env'))]),
         w(test_file := None))) \<and>
   (w test_file \<noteq> None \<and> fst (os_remove env w test_file) = Inl e \<longrightarrow>
      cleanup_disk env w = (Inl (HTTPException 500 (str_exn e)), w))"
proof (intro conjI impI; (elim conjE)?)
  show "cleanup_disk env w =
      (Inr (JObj [(''message'', JStr ''No test file found''), (''timestamp'', JStr (now env))]), w)"
    if "w test_file = None"
    using that by (simp add: cleanup_disk_def os_path_exists_def)
next
  assume "w test_file = Some (RegularFile bytes)" and "remove_raises env test_file = None"
  then show "cleanup_disk env w =
      (Inr (JObj [(''message'', JStr ''Test file removed''), (''timestamp'', JStr (now env))]),
       w(test_file := None))"
    by (simp add: cleanup_disk_def os_path_exists_def os_remove_def)
next
  show "cleanup_disk env' (w(test_file := None)) =
      (Inr (JObj [(''message'', JStr ''No test file found''), (''timestamp'', JStr (now env'))]),
       w(test_file := None))"
    by (simp add: cleanup_disk_def os_path_exists_def)
next
  assume ex: "w test_file \<noteq> None" and raised: "fst (os_remove env w test_file) = Inl e"
  obtain w' where r: "os_remove env w test_file = (Inl e, w')"
    using raised by (cases "os_remove env w test_file") simp
  from os_remove_fails [OF r] have "w' = w" .
  with ex r show "cleanup_disk env w = (Inl (HTTPException 500 (str_exn e)), w)"
    by (simp add: cleanup_disk_def os_path_exists_def)
qed

theorem cleanup_disk_outcomes_witness:
  "cleanup_disk host0 world0 =
     (Inr (JObj [(''message'', JStr ''No test file found''),
                 (''timestamp'', JStr ''2024-01-01T00:00:00'')]), world0) \<and>
   cleanup_disk host0 world_filled =
     (Inr (JObj [(''message'', JStr ''Test file removed''),
                 (''timestamp'', JStr ''2024-01-01T00:00:00'')]),
      world_filled(test_file := None)) \<and>
   cleanup_disk host_readonly (world_filled(test_file := None)) =
     (Inr (JObj [(''message'', JStr ''No test file found''),
                 (''timestamp'', JStr ''2024-01-01T00:00:00'')]),
      world_filled(test_file := None)) \<and>
   cleanup_disk host_readonly world_filled =
     (Inl (HTTPException 500 (''[Errno 30] Read-only file system: '' @ quoted test_file)),
      world_filled)"
proof -
  have a: "world0 test_file = None" "world_filled test_file = Some (RegularFile ''0000'')"
    by (simp_all add: world0_def world_filled_def test_file_def)
  have b: "remove_raises host0 test_file = None"
      "fst (os_remove host_readonly world_filled test_file) =
         Inl (OSError (''[Errno 30] Read-only file system: '' @ quoted test_file))"
    by (simp_all add: host0_def host_readonly_def os_remove_def)
  have n: "now host0 = ''2024-01-01T00:00:00''" "now host_readonly = ''2024-01-01T00:00:00''"
    by (simp_all add: host0_def host_readonly_def)
  show ?thesis
    using cleanup_disk_outcomes [of world0 host0 "[]" host0 MemoryError]
      cleanup_disk_outcomes [of world_filled host0 "''0000''" host_readonly MemoryError]
      cleanup_disk_outcomes [of world_filled host_readonly "[]" host0
        "OSError (''[Errno 30] Read-only file system: '' @ quoted test_file)"] a b n
    by simp
qed

text \<open>
  The claim as the specification states it, that two calls in a row never fail, fails:
  with the test file on a read-only file system both calls are answered by status 500.
\<close>

theorem cleanup_disk_can_fail:
  "fst (cleanup_disk host_readonly world_filled) =
     Inl (HTTPException 500 (''[Errno 30] Read-only file system: '' @ quoted test_file)) \<and>
   fst (cleanup_disk host_readonly (snd (cleanup_disk host_readonly world_filled))) =
     Inl (HTTPException 500 (''[Errno 30] Read-only file system: '' @ quoted test_file)) \<and>
   os_path_exists world_filled test_file"
  by (simp add: cleanup_disk_def os_path_exists_def os_remove_def host_readonly_def host0_def
      world_filled_def test_file_def)

subsection \<open>C9: the percent fields\<close>




subsection \<open>C10: the cap is an upper bound only\<close>

text \<open>
  C10. A size within the cap, zero and negative sizes among them, is never answered by the
  rejection with status 400. A negative size given to \<^verbatim>\<open>allocate_memory\<close> raises an
  exception that is neither that rejection nor the 507 of a failed allocation: a
  \<^verbatim>\<open>ValueError\<close> from \<open>- 2 ^ 43\<close> on, an \<^verbatim>\<open>OverflowError\<close> below, where the count of bytes
  no longer fits the index type. A size from \<open>- 2 ^ 43\<close> to 0 given to \<^verbatim>\<open>fill_disk\<close>
  writes an empty file and succeeds when making the directory, opening the file and the
  empty write raise nothing. Below \<open>- 2 ^ 43\<close> the call, once the file is opened, fails by
  the \<^verbatim>\<open>OverflowError\<close>, which is not caught, and leaves the file empty.
\<close>

theorem cap_is_upper_bound_only:
  "(size_mb \<le> 1000 \<longrightarrow> http_status (fst (allocate_memory env size_mb)) \<noteq> 400) \<and>
   (size_mb \<le> 100 \<longrightarrow> http_status (fst (fill_disk env w size_mb)) \<noteq> 400) \<and>
   (- 8796093022208 \<le> size_mb \<and> size_mb < 0 \<longrightarrow>
      allocate_memory env size_mb = (Inl (Unhandled (ValueError ''negative count'')), None)) \<and>
   (size_mb < - 8796093022208 \<longrightarrow>
      allocate_memory env size_mb =
        (Inl (Unhandled (OverflowError ''cannot fit 'int' into an index-sized integer'')), None)) \<and>
   (- 8796093022208 \<le> size_mb \<and> size_mb \<le> 0 \<and>
    os_makedirs env w ''/app/data'' = (Inr (), w1) \<and>
    open_wb env w1 test_file = (Inr (), w2) \<and> write_raises env test_file 0 = None \<longrightarrow>
      (\<exists>usage. fill_disk env w size_mb =
         (Inr (JObj
            [(''message'', JStr (''Created '' @ py_str size_mb @ ''MB test file'')),
             (''file_path'', JStr test_file),
             (''timestamp'', JStr (now env)),
             (''disk_usage'', JInt usage)]),
          w2(test_file \<mapsto> RegularFile [])))) \<and>
   (size_mb < - 8796093022208 \<and>
    os_makedirs env w ''/app/data'' = (Inr (), w1) \<and> open_wb env w1 test_file = (Inr (), w2) \<longrightarrow>
      fill_disk env w size_mb =
        (Inl (Unhandled (OverflowError ''cannot fit 'int' into an index-sized integer'')), w2) \<and>
      w2 test_file = Some (RegularFile []))"
  using allocate_memory_not_400 [of size_mb env] fill_disk_not_400 [of size_mb env w]
    allocate_memory_negative [of size_mb env] allocate_memory_overflow [of size_mb env]
    fill_disk_empty [of size_mb env w w1 w2] fill_disk_overflow [of size_mb env w w1 w2]
  by blast

theorem cap_is_upper_bound_only_witness:
  "http_status (fst (allocate_memory host0 (- 3))) \<noteq> 400 \<and>
   http_status (fst (fill_disk host0 world0 (- 3))) \<noteq> 400 \<and>
   allocate_memory host0 (- 3) = (Inl (Unhandled (ValueError ''negative count'')), None) \<and>
   fst (fill_disk host0 world0 (- 3)) =
     Inr (JObj
       [(''message'', JStr ''Created -3MB test file''),
        (''file_path'', JStr ''/app/data/test_file.bin''),
        (''timestamp'', JStr ''2024-01-01T00:00:00''),
        (''disk_usage'', JInt 0)]) \<and>
   snd (fill_disk host0 world0 (- 3)) ''/app/data/test_file.bin'' = Some (RegularFile []) \<and>
   allocate_memory host0 (- 10000000000000) =
     (Inl (Unhandled (OverflowError ''cannot fit 'int' into an index-sized integer'')), None) \<and>
   fst (fill_disk host0 world0 (- 10000000000000)) =
     Inl (Unhandled (OverflowError ''cannot fit 'int' into an index-sized integer'')) \<and>
   snd (fill_disk host0 world0 (- 10000000000000)) ''/app/data/test_file.bin'' =
     Some (RegularFile [])"
proof -
  let ?w1 = "world0(''/app'' \<mapsto> Directory, ''/app/data'' \<mapsto> Directory)"
  let ?w2 = "?w1(test_file \<mapsto> RegularFile [])"
  have m: "os_makedirs host0 world0 ''/app/data'' = (Inr (), ?w1)"
    by (rule makedirs_world0) (simp add: host0_def)
  have o: "open_wb host0 ?w1 test_file = (Inr (), ?w2)"
    by (simp add: open_wb_def host0_def world0_def test_file_def)
  have wr: "write_raises host0 test_file 0 = None"
    by (simp add: host0_def)
  have u: "get_directory_size host0 ''/app/data'' = Inr 0"
    by (simp add: get_directory_size_def host0_def seq_def)
  obtain usage where f: "fill_disk host0 world0 (- 3) =
         (Inr (JObj
            [(''message'', JStr (''Created '' @ py_str (- 3) @ ''MB test file'')),
             (''file_path'', JStr test_file),
             (''timestamp'', JStr (now host0)),
             (''disk_usage'', JInt usage)]), ?w2(test_file \<mapsto> RegularFile []))"
    and a: "http_status (fst (allocate_memory host0 (- 3))) \<noteq> 400"
    and b: "http_status (fst (fill_disk host0 world0 (- 3))) \<noteq> 400"
    and c: "allocate_memory host0 (- 3) = (Inl (Unhandled (ValueError ''negative count'')), None)"
    using cap_is_upper_bound_only [of "- 3" host0 world0 ?w1 ?w2] m o wr by auto
  have "usage = 0"
    using f u by (simp add: fill_disk_def fill_body_def dirname_test_file m o bytes_repeat_def
        as_index_def seq_def file_write_def wr)
  with f a b c have small:
    "http_status (fst (allocate_memory host0 (- 3))) \<noteq> 400 \<and>
     http_status (fst (fill_disk host0 world0 (- 3))) \<noteq> 400 \<and>
     allocate_memory host0 (- 3) = (Inl (Unhandled (ValueError ''negative count'')), None) \<and>
     fst (fill_disk host0 world0 (- 3)) =
       Inr (JObj
         [(''message'', JStr ''Created -3MB test file''),
          (''file_path'', JStr ''/app/data/test_file.bin''),
          (''timestamp'', JStr ''2024-01-01T00:00:00''),
          (''disk_usage'', JInt 0)]) \<and>
     snd (fill_disk host0 world0 (- 3)) ''/app/data/test_file.bin'' = Some (RegularFile [])"
    by (simp add: py_str_minus_3 test_file_def host0_def)
  have big:
    "allocate_memory host0 (- 10000000000000) =
       (Inl (Unhandled (OverflowError ''cannot fit 'int' into an index-sized integer'')), None) \<and>
     fst (fill_disk host0 world0 (- 10000000000000)) =
       Inl (Unhandled (OverflowError ''cannot fit 'int' into an index-sized integer'')) \<and>
     snd (fill_disk host0 world0 (- 10000000000000)) ''/app/data/test_file.bin'' =
       Some (RegularFile [])"
    using cap_is_upper_bound_only [of "- 10000000000000" host0 world0 ?w1 ?w2] m o
    by (simp add: test_file_def)
  from small big show ?thesis by simp
qed

text \<open>
  The claim as the specification states it, that a zero or negative size given to
  \<^verbatim>\<open>fill_disk\<close> succeeds and writes an empty file, fails twice: a size below \<open>- 2 ^ 43\<close>
  ends in an \<^verbatim>\<open>OverflowError\<close> that nothing catches, and on a read-only file system a
  fill of size 0 is answered by status 507 and writes no file.
\<close>

theorem empty_fill_can_fail:
  "fst (fill_disk host0 world0 (- 10000000000000)) =
     Inl (Unhandled (OverflowError ''cannot fit 'int' into an index-sized integer'')) \<and>
   fst (fill_disk host_readonly world_mounted 0) =
     Inl (HTTPException 507
       (''Disk full: [Errno 30] Read-only file system: '' @ quoted ''/app/data/test_file.bin'')) \<and>
   snd (fill_disk host_readonly world_mounted 0) test_file = None"
proof -
  let ?w1 = "world0(''/app'' \<mapsto> Directory, ''/app/data'' \<mapsto> Directory)"
  have m: "os_makedirs host0 world0 ''/app/data'' = (Inr (), ?w1)"
    by (rule makedirs_world0) (simp add: host0_def)
  have o: "open_wb host0 ?w1 test_file = (Inr (), ?w1(test_file \<mapsto> RegularFile []))"
    by (simp add: open_wb_def host0_def world0_def test_file_def)
  have over: "fst (fill_disk host0 world0 (- 10000000000000)) =
      Inl (Unhandled (OverflowError ''cannot fit 'int' into an index-sized integer''))"
    using fill_disk_overflow [OF _ m o, of "- 10000000000000"] by simp
  have m': "os_makedirs host_readonly world_mounted ''/app/data'' = (Inr (), world_mounted)"
    by (rule makedirs_world_mounted) (simp add: host_readonly_def host0_def)
  have o': "open_wb host_readonly world_mounted test_file =
      (Inl (OSError (''[Errno 30] Read-only file system: '' @ quoted test_file)), world_mounted)"
    by (simp add: open_wb_def host_readonly_def host0_def)
  have "fill_body host_readonly world_mounted 0 =
      (Inl (OSError (''[Errno 30] Read-only file system: '' @ quoted test_file)), world_mounted)"
    by (rule fill_body_open [OF m' o'])
  from fill_disk_handler [OF _ this] over show ?thesis
    by (simp add: world_mounted_def test_file_def)
qed

end
